theory Spec2Isabelle
  imports Complex_Main
begin

section \<open>Python values, exceptions and the library boundary\<close>

text \<open>
  The loader (\<^verbatim>\<open>src/fund_loader.py\<close>) reads provider frames (pandas data frames
  returned by akshare), converts their cells with \<^verbatim>\<open>float\<close>, \<^verbatim>\<open>int\<close> and
  \<^verbatim>\<open>pd.to_datetime\<close>, and writes rows through an SQLAlchemy session.  Exceptions are
  values: a statement that can raise returns \<open>exn + 'a\<close> with \<open>Inl\<close> the exception.

  A \<open>timestamp\<close> is a naive local datetime, counted in microseconds; a \<open>date\<close>
  is a calendar day, counted in days.  The columns \<^verbatim>\<open>report_date\<close> and
  \<^verbatim>\<open>change_date\<close> are SQL \<^verbatim>\<open>Date\<close> columns: they store, return and compare the
  day of the value written to them.

  What is not modelled: log lines other than the \<^verbatim>\<open>logger.error\<close> of an exception
  handler, \<^verbatim>\<open>time.sleep\<close>, and a failure of \<^verbatim>\<open>session.rollback()\<close> itself (the
  store can refuse a commit, never a rollback or a query).
\<close>

type_synonym timestamp = int

type_synonym date = int

definition day_us :: int where
  "day_us = 86400000000"

definition date_of :: "timestamp \<Rightarrow> date" where
  \<comment> \<open>\<^verbatim>\<open>t.date()\<close>: the calendar day of a datetime\<close>
  "date_of t = t div day_us"

definition timedelta_days :: "int \<Rightarrow> int" where
  "timedelta_days n = n * day_us"

definition midnight :: "date \<Rightarrow> timestamp" where
  \<comment> \<open>the datetime at 00:00 of a day\<close>
  "midnight d = d * day_us"

datatype exn =
  KeyError | ValueError | TypeError | AttributeError | OverflowError
  | UnboundLocalError | FetchError | StoreError | FileNotFoundError

datatype pyfloat = Float real | NaN | Infinity bool

text \<open>
  A cell of a provider frame: a number (Python int or float, \<open>PNum NaN\<close> the missing
  number), a string, a datetime object, or \<^verbatim>\<open>None\<close>.
\<close>

datatype pval = PNum pyfloat | PStr string | PTime timestamp | PNone

datatype dt_result = Stamp timestamp | NaT | DtError

text \<open>
  What Python and pandas do with a string is not code of this repository; it is a
  parameter of the model.  \<open>str_float s\<close> is \<^verbatim>\<open>float(s)\<close> for a string \<open>s\<close>
  (\<open>None\<close>: ValueError); \<open>pd_to_datetime v\<close> is \<^verbatim>\<open>pd.to_datetime(v)\<close>
  (a timestamp, \<^verbatim>\<open>NaT\<close>/\<^verbatim>\<open>None\<close>, or an exception); \<open>ts_le_date t d\<close> is
  \<^verbatim>\<open>t <= d\<close> for a \<^verbatim>\<open>pd.Timestamp\<close> \<open>t\<close> and a \<^verbatim>\<open>datetime.date\<close> \<open>d\<close>
  (\<open>None\<close>: TypeError, which is what pandas 2 does for every \<open>t\<close> and \<open>d\<close>; pandas 1
  compared \<open>t\<close> with the midnight of \<open>d\<close>).
\<close>

record pylib =
  str_float :: "string \<Rightarrow> pyfloat option"
  pd_to_datetime :: "pval \<Rightarrow> dt_result"
  ts_le_date :: "timestamp \<Rightarrow> date \<Rightarrow> bool option"

definition bindE :: "exn + 'a \<Rightarrow> ('a \<Rightarrow> exn + 'b) \<Rightarrow> exn + 'b" where
  \<comment> \<open>statement sequencing: an exception of the first statement propagates\<close>
  "bindE m f = (case m of Inl e \<Rightarrow> Inl e | Inr x \<Rightarrow> f x)"

fun for_rows :: "('r \<Rightarrow> 's \<Rightarrow> exn + 's) \<Rightarrow> 'r list \<Rightarrow> 's \<Rightarrow> exn + 's" where
  \<comment> \<open>\<^verbatim>\<open>for _, row in df.iterrows(): body\<close>; the first exception leaves the loop\<close>
  "for_rows body [] s = Inr s"
| "for_rows body (r # rs) s =
     (case body r s of Inl e \<Rightarrow> Inl e | Inr s' \<Rightarrow> for_rows body rs s')"

definition py_float :: "pylib \<Rightarrow> pval \<Rightarrow> exn + pyfloat" where
  \<comment> \<open>\<^verbatim>\<open>float(v)\<close>\<close>
  "py_float L v =
     (case v of
        PNum f \<Rightarrow> Inr f
      | PStr s \<Rightarrow> (case str_float L s of None \<Rightarrow> Inl ValueError | Some f \<Rightarrow> Inr f)
      | PTime t \<Rightarrow> Inl TypeError
      | PNone \<Rightarrow> Inl TypeError)"

definition py_int :: "pyfloat \<Rightarrow> exn + pyfloat" where
  \<comment> \<open>\<^verbatim>\<open>int(f)\<close> of a float, truncating towards zero; the result is stored in a Float column\<close>
  "py_int f =
     (case f of
        Float r \<Rightarrow> Inr (Float (of_int (if 0 \<le> r then \<lfloor>r\<rfloor> else \<lceil>r\<rceil>)))
      | NaN \<Rightarrow> Inl ValueError
      | Infinity b \<Rightarrow> Inl OverflowError)"

definition notna :: "pval \<Rightarrow> bool" where
  \<comment> \<open>\<^verbatim>\<open>pd.notna(v)\<close>\<close>
  "notna v = (v \<noteq> PNum NaN \<and> v \<noteq> PNone)"

definition truthy :: "pval \<Rightarrow> bool" where
  \<comment> \<open>Python truth value of a cell, as \<^verbatim>\<open>or\<close> and \<^verbatim>\<open>if not\<close> test it\<close>
  "truthy v =
     (case v of
        PNum f \<Rightarrow> f \<noteq> Float 0
      | PStr s \<Rightarrow> s \<noteq> []
      | PTime t \<Rightarrow> True
      | PNone \<Rightarrow> False)"

definition py_or :: "pval \<Rightarrow> pval \<Rightarrow> pval" where
  \<comment> \<open>\<^verbatim>\<open>a or b\<close>\<close>
  "py_or a b = (if truthy a then a else b)"

definition to_datetime :: "pylib \<Rightarrow> pval \<Rightarrow> exn + timestamp" where
  \<comment> \<open>\<^verbatim>\<open>pd.to_datetime(v)\<close> of one cell whose result becomes a key column: with
      \<^verbatim>\<open>NaT\<close> the comparisons that follow are false and the next store access
      (\<^verbatim>\<open>session.merge\<close>, a query) raises, so \<^verbatim>\<open>NaT\<close> is raised here\<close>
  "to_datetime L v =
     (case pd_to_datetime L v of
        Stamp t \<Rightarrow> Inr t
      | NaT \<Rightarrow> Inl ValueError
      | DtError \<Rightarrow> Inl ValueError)"

subsection \<open>Provider frames\<close>

text \<open>
  The column labels of the provider's frames are Chinese strings; each is named here
  by its meaning.  In source order: the financial-indicator frame (report period,
  return on equity, net margin, gross margin, net profit, earnings per share, main
  business income; \<^verbatim>\<open>main\<close> also reads a report date and a publication date), the
  shareholding-change frame (officer name, name of the person whose shares changed,
  number of shares changed, average price, change date, change reason), the news
  frame (time, date, title, link), the price frame (date, open, high, low, close,
  volume, amount), the items of the individual-info frame (total market value, total
  shares, floating shares, dynamic P/E, P/B, short name, area, listing time) and the
  industry-board frame (code, board name).
\<close>

datatype label =
  L_report_period | L_report_date | L_publish_date
  | L_roe | L_net_margin | L_gross_margin | L_net_profit | L_eps | L_income
  | L_officer_name | L_changer_name | L_shares_changed | L_avg_price
  | L_change_date | L_change_reason
  | L_time | L_date | L_title | L_link
  | L_open | L_high | L_low | L_close | L_volume | L_amount
  | L_market_cap | L_total_shares | L_float_shares | L_pe_dynamic | L_pb
  | L_short_name | L_area | L_list_time
  | L_code | L_board_name
  | L_other string

type_synonym row = "(label \<times> pval) list"

type_synonym frame = "row list"

definition row_index :: "row \<Rightarrow> label \<Rightarrow> exn + pval" where
  \<comment> \<open>\<^verbatim>\<open>row['label']\<close>\<close>
  "row_index r k = (case map_of r k of None \<Rightarrow> Inl KeyError | Some v \<Rightarrow> Inr v)"

definition row_get :: "row \<Rightarrow> label \<Rightarrow> pval \<Rightarrow> pval" where
  \<comment> \<open>\<^verbatim>\<open>row.get('label', default)\<close>\<close>
  "row_get r k d = (case map_of r k of None \<Rightarrow> d | Some v \<Rightarrow> v)"

definition float_at :: "pylib \<Rightarrow> row \<Rightarrow> label \<Rightarrow> exn + pyfloat" where
  \<comment> \<open>\<^verbatim>\<open>float(row['label'])\<close>\<close>
  "float_at L r k = bindE (row_index r k) (py_float L)"

section \<open>The per-security store\<close>

text \<open>
  One SQLite file per security holds six tables.  A table is the list of its rows.
  \<^verbatim>\<open>StockDaily\<close> has the surrogate primary key \<^verbatim>\<open>id\<close>; its inner
  \<^verbatim>\<open>class Config: unique_together = ('symbol', 'trade_date')\<close> is not read by
  SQLAlchemy.  The other five tables have the primary keys of the data model.
\<close>

record stock_basic =
  b_symbol :: string
  b_name :: pval
  b_industry :: pval
  b_area :: pval
  b_market :: string
  b_list_date :: pval
  b_last_updated :: timestamp

record stock_daily =
  d_id :: "nat option"
  d_symbol :: string
  d_trade_date :: timestamp
  d_open :: pyfloat
  d_high :: pyfloat
  d_low :: pyfloat
  d_close :: pyfloat
  d_volume :: pyfloat
  d_amount :: pyfloat

record stock_financial_metrics =
  fm_symbol :: string
  fm_report_date :: date
  fm_roe :: pyfloat
  fm_net_profit_ratio :: pyfloat
  fm_gross_profit_rate :: pyfloat
  fm_net_profits :: pyfloat
  fm_eps :: pyfloat
  fm_main_business_income :: pyfloat
  fm_update_date :: timestamp

record stock_insider_trades =
  it_symbol :: string
  it_holder_name :: pval
  it_change_date :: date
  it_change_type :: pval
  it_shares_changed :: pyfloat
  it_price :: pyfloat
  it_update_date :: timestamp

record stock_news =
  n_symbol :: string
  n_title :: pval
  n_date :: timestamp
  n_source :: string
  n_url :: pval
  n_update_date :: timestamp

record stock_valuation_info =
  v_symbol :: string
  v_market_cap :: pyfloat
  v_total_shares :: pyfloat
  v_outstanding_shares :: pyfloat
  v_pe_ratio :: pyfloat
  v_pb_ratio :: pyfloat
  v_update_date :: timestamp

record store =
  tbl_basic :: "stock_basic list"
  tbl_daily :: "stock_daily list"
  tbl_metrics :: "stock_financial_metrics list"
  tbl_trades :: "stock_insider_trades list"
  tbl_news :: "stock_news list"
  tbl_valuation :: "stock_valuation_info list"

subsection \<open>\<^verbatim>\<open>session.merge\<close>, queries, commit and rollback\<close>

fun merge_by :: "('r \<Rightarrow> 'k) \<Rightarrow> 'r \<Rightarrow> 'r list \<Rightarrow> 'r list" where
  \<comment> \<open>\<^verbatim>\<open>session.merge(obj)\<close> for an object whose primary key is set: the row with that
      key takes the object's attributes, or the object is inserted\<close>
  "merge_by key r [] = [r]"
| "merge_by key r (x # xs) = (if key x = key r then r # xs else x # merge_by key r xs)"

definition next_rowid :: "stock_daily list \<Rightarrow> nat" where
  \<comment> \<open>the integer key SQLite gives an inserted row: one more than the largest in use\<close>
  "next_rowid tbl = Suc (fold max (map (\<lambda>r. case d_id r of None \<Rightarrow> 0 | Some i \<Rightarrow> i) tbl) 0)"

definition merge_daily :: "stock_daily \<Rightarrow> stock_daily list \<Rightarrow> stock_daily list" where
  \<comment> \<open>\<^verbatim>\<open>session.merge\<close> on \<^verbatim>\<open>StockDaily\<close>: an object whose \<^verbatim>\<open>id\<close> is unset has no
      identity to look up and is inserted as a new row\<close>
  "merge_daily r tbl =
     (case d_id r of
        None \<Rightarrow> tbl @ [r\<lparr>d_id := Some (next_rowid tbl)\<rparr>]
      | Some i \<Rightarrow> merge_by d_id r tbl)"

definition metrics_key :: "stock_financial_metrics \<Rightarrow> string \<times> date" where
  \<comment> \<open>primary key (symbol, report_date), the second a \<^verbatim>\<open>Date\<close>: one row per day\<close>
  "metrics_key r = (fm_symbol r, fm_report_date r)"

definition trade_key :: "stock_insider_trades \<Rightarrow> string \<times> pval \<times> date" where
  \<comment> \<open>primary key (symbol, holder_name, change_date), the last a \<^verbatim>\<open>Date\<close>\<close>
  "trade_key r = (it_symbol r, it_holder_name r, it_change_date r)"

definition news_key :: "stock_news \<Rightarrow> string \<times> pval \<times> timestamp" where
  "news_key r = (n_symbol r, n_title r, n_date r)"

fun latest_by :: "('r \<Rightarrow> int) \<Rightarrow> 'r list \<Rightarrow> 'r option" where
  \<comment> \<open>\<^verbatim>\<open>.order_by(col.desc()).first()\<close>: a row with the largest value, \<open>None\<close> on no row\<close>
  "latest_by f [] = None"
| "latest_by f (x # xs) =
     (case latest_by f xs of
        None \<Rightarrow> Some x
      | Some y \<Rightarrow> if f y \<le> f x then Some x else Some y)"

definition commit :: "bool \<Rightarrow> 't \<Rightarrow> exn + 't" where
  \<comment> \<open>\<^verbatim>\<open>session.commit()\<close>; the flag says whether the store accepts the write\<close>
  "commit ok tbl = (if ok then Inr tbl else Inl StoreError)"

definition handled :: "exn + 't \<Rightarrow> 't \<Rightarrow> 't \<times> exn option" where
  \<comment> \<open>\<^verbatim>\<open>try: body except Exception as e: logger.error(e); session.rollback()\<close>: the
      table after the step, and the exception the handler logged\<close>
  "handled r old = (case r of Inl e \<Rightarrow> (old, Some e) | Inr t \<Rightarrow> (t, None))"

section \<open>Full-history price load: \<^verbatim>\<open>update_stock_price\<close>\<close>

definition price_at :: "pylib \<Rightarrow> string \<Rightarrow> timestamp \<Rightarrow> row \<Rightarrow> exn + stock_daily" where
  \<comment> \<open>\<^verbatim>\<open>StockDaily(symbol=..., trade_date=td, open=float(row[...]), ...)\<close>: no \<^verbatim>\<open>id\<close>\<close>
  "price_at L smb td r =
     bindE (float_at L r L_open) (\<lambda>op.
     bindE (float_at L r L_high) (\<lambda>hi.
     bindE (float_at L r L_low) (\<lambda>lo.
     bindE (float_at L r L_close) (\<lambda>cl.
     bindE (float_at L r L_volume) (\<lambda>vo.
     bindE (float_at L r L_amount) (\<lambda>am.
       Inr \<lparr>d_id = None, d_symbol = smb, d_trade_date = td, d_open = op, d_high = hi,
            d_low = lo, d_close = cl, d_volume = vo, d_amount = am\<rparr>))))))"

definition price_of_row :: "pylib \<Rightarrow> string \<Rightarrow> row \<Rightarrow> exn + stock_daily" where
  "price_of_row L smb r =
     bindE (bindE (row_index r L_date) (to_datetime L)) (\<lambda>td. price_at L smb td r)"

definition update_stock_price_body ::
  "pylib \<Rightarrow> string \<Rightarrow> bool \<Rightarrow> exn + frame \<Rightarrow> stock_daily list \<Rightarrow> exn + stock_daily list" where
  "update_stock_price_body L smb ok fetched tbl =
     bindE fetched (\<lambda>df.
       if df = [] then Inr tbl
       else bindE (for_rows (\<lambda>r t. bindE (price_of_row L smb r) (\<lambda>p. Inr (merge_daily p t))) df tbl)
              (commit ok))"

definition update_stock_price ::
  "pylib \<Rightarrow> string \<Rightarrow> bool \<Rightarrow> exn + frame \<Rightarrow> stock_daily list \<Rightarrow> stock_daily list \<times> exn option" where
  "update_stock_price L smb ok fetched tbl =
     handled (update_stock_price_body L smb ok fetched tbl) tbl"

section \<open>The simple per-entity updates\<close>

text \<open>
  Each update reads the clock once per written row; the model passes one time \<open>now\<close>
  per step.  The fetch of a step is the argument \<open>fetched\<close>: what the provider call
  returned, or the exception it raised.
\<close>

definition startswith :: "string \<Rightarrow> string \<Rightarrow> bool" where
  "startswith s p = (take (length p) s = p)"

definition metrics_of_row ::
  "pylib \<Rightarrow> string \<Rightarrow> timestamp \<Rightarrow> timestamp \<Rightarrow> row \<Rightarrow> exn + stock_financial_metrics" where
  \<comment> \<open>\<^verbatim>\<open>StockFinancialMetrics(symbol=..., report_date=rd, roe=float(row[...]), ...)\<close>;
      the \<^verbatim>\<open>Date\<close> column keeps the day of \<open>rd\<close>\<close>
  "metrics_of_row L smb now rd r =
     bindE (float_at L r L_roe) (\<lambda>roe.
     bindE (float_at L r L_net_margin) (\<lambda>npr.
     bindE (float_at L r L_gross_margin) (\<lambda>gpr.
     bindE (float_at L r L_net_profit) (\<lambda>np.
     bindE (float_at L r L_eps) (\<lambda>eps.
     bindE (float_at L r L_income) (\<lambda>inc.
       Inr \<lparr>fm_symbol = smb, fm_report_date = date_of rd, fm_roe = roe, fm_net_profit_ratio = npr,
            fm_gross_profit_rate = gpr, fm_net_profits = np, fm_eps = eps,
            fm_main_business_income = inc, fm_update_date = now\<rparr>))))))"

definition report_date_of :: "pylib \<Rightarrow> row \<Rightarrow> exn + timestamp" where
  \<comment> \<open>\<^verbatim>\<open>pd.to_datetime(row[report-period])\<close>\<close>
  "report_date_of L r = bindE (row_index r L_report_period) (to_datetime L)"

definition metrics_from_row ::
  "pylib \<Rightarrow> string \<Rightarrow> timestamp \<Rightarrow> row \<Rightarrow> exn + stock_financial_metrics" where
  \<comment> \<open>the constructor call of the loop, \<^verbatim>\<open>report_date=pd.to_datetime(row[...])\<close> first\<close>
  "metrics_from_row L smb now r =
     bindE (report_date_of L r) (\<lambda>rd. metrics_of_row L smb now rd r)"

definition update_financial_metrics_body ::
  "pylib \<Rightarrow> string \<Rightarrow> timestamp \<Rightarrow> bool \<Rightarrow> exn + frame \<Rightarrow> stock_financial_metrics list
     \<Rightarrow> exn + stock_financial_metrics list" where
  "update_financial_metrics_body L smb now ok fetched tbl =
     bindE fetched (\<lambda>df.
     bindE (for_rows (\<lambda>r t.
              bindE (metrics_from_row L smb now r) (\<lambda>m. Inr (merge_by metrics_key m t)))
            df tbl)
       (commit ok))"

definition update_financial_metrics ::
  "pylib \<Rightarrow> string \<Rightarrow> timestamp \<Rightarrow> bool \<Rightarrow> exn + frame \<Rightarrow> stock_financial_metrics list
     \<Rightarrow> stock_financial_metrics list \<times> exn option" where
  "update_financial_metrics L smb now ok fetched tbl =
     handled (update_financial_metrics_body L smb now ok fetched tbl) tbl"

definition unknown_name :: pval where
  \<comment> \<open>the source's two-character literal for "unknown"\<close>
  "unknown_name = PStr ''unknown''"

definition trade_fields :: "pylib \<Rightarrow> row \<Rightarrow> exn + (pval \<times> pyfloat \<times> pyfloat)" where
  \<comment> \<open>holder name, \<^verbatim>\<open>int(float(shares_val)) if pd.notna(shares_val) else 0\<close> and
      \<^verbatim>\<open>float(raw_price) if pd.notna(raw_price) else 0.0\<close>\<close>
  "trade_fields L r =
     (let holder_name = py_or (row_get r L_officer_name PNone) (row_get r L_changer_name unknown_name);
          shares_val = row_get r L_shares_changed (PNum (Float 0));
          raw_price = row_get r L_avg_price PNone
      in bindE (if notna shares_val then bindE (py_float L shares_val) py_int else Inr (Float 0))
           (\<lambda>shares_changed.
         bindE (if notna raw_price then py_float L raw_price else Inr (Float 0))
           (\<lambda>price. Inr (holder_name, shares_changed, price))))"

definition trade_of ::
  "string \<Rightarrow> timestamp \<Rightarrow> row \<Rightarrow> timestamp \<Rightarrow> pval \<times> pyfloat \<times> pyfloat \<Rightarrow> stock_insider_trades" where
  "trade_of smb now r cd f =
     \<lparr>it_symbol = smb, it_holder_name = fst f, it_change_date = date_of cd,
      it_change_type = row_get r L_change_reason (PStr []),
      it_shares_changed = fst (snd f), it_price = snd (snd f), it_update_date = now\<rparr>"

definition change_date_of :: "pylib \<Rightarrow> row \<Rightarrow> exn + timestamp" where
  \<comment> \<open>\<^verbatim>\<open>pd.to_datetime(row.get(change-date))\<close>\<close>
  "change_date_of L r = to_datetime L (row_get r L_change_date PNone)"

definition trades_loop ::
  "pylib \<Rightarrow> string \<Rightarrow> timestamp \<Rightarrow> frame \<Rightarrow> stock_insider_trades list
     \<Rightarrow> exn + stock_insider_trades list" where
  \<comment> \<open>the row loop of \<^verbatim>\<open>update_insider_trades\<close>, of step 3 of the daily update and of
      \<^verbatim>\<open>main\<close>\<close>
  "trades_loop L smb now df tbl =
     for_rows (\<lambda>r t.
        bindE (trade_fields L r) (\<lambda>f.
        bindE (change_date_of L r) (\<lambda>cd.
          Inr (merge_by trade_key (trade_of smb now r cd f) t))))
      df tbl"



definition eastmoney :: string where
  \<comment> \<open>the source's constant news source, the provider's name\<close>
  "eastmoney = ''eastmoney''"

definition news_of :: "string \<Rightarrow> timestamp \<Rightarrow> row \<Rightarrow> timestamp \<Rightarrow> stock_news" where
  "news_of smb now r nd =
     \<lparr>n_symbol = smb, n_title = row_get r L_title (PStr []), n_date = nd,
      n_source = eastmoney, n_url = row_get r L_link (PStr []), n_update_date = now\<rparr>"

definition news_date_str :: "row \<Rightarrow> pval" where
  \<comment> \<open>\<^verbatim>\<open>row.get(time) or row.get(date)\<close>\<close>
  "news_date_str r = py_or (row_get r L_time PNone) (row_get r L_date PNone)"



subsection \<open>The individual-info frame and the valuation row\<close>

text \<open>
  The individual-info frame has one row per item, in the columns \<^verbatim>\<open>item\<close> and
  \<^verbatim>\<open>value\<close>.  \<open>has_item_value\<close> says whether both columns are there; \<open>entries\<close>
  are its rows.
\<close>

datatype info_frame = InfoFrame (has_item_value: bool) (entries: "(label \<times> pval) list")

definition str_replace_comma :: "pval \<Rightarrow> exn + pval" where
  \<comment> \<open>\<^verbatim>\<open>v.replace(",", "")\<close>: a method of strings only\<close>
  "str_replace_comma v =
     (case v of
        PStr s \<Rightarrow> Inr (PStr (filter (\<lambda>c. c \<noteq> CHR '','') s))
      | PNum f \<Rightarrow> Inl AttributeError
      | PTime t \<Rightarrow> Inl TypeError
      | PNone \<Rightarrow> Inl AttributeError)"

definition info_dict_field :: "pylib \<Rightarrow> (label \<times> pval) list \<Rightarrow> label \<Rightarrow> pyfloat" where
  \<comment> \<open>\<^verbatim>\<open>try: x = float(info_dict.get(k, "0").replace(",", "")) except: x = 0.0\<close>;
      \<open>info_dict\<close> was filled row by row, so the last row of an item counts\<close>
  "info_dict_field L es k =
     (case bindE (str_replace_comma (case map_of (rev es) k of None \<Rightarrow> PStr ''0'' | Some v \<Rightarrow> v))
             (py_float L) of
        Inl e \<Rightarrow> Float 0
      | Inr f \<Rightarrow> f)"

definition update_valuation_info_body ::
  "pylib \<Rightarrow> string \<Rightarrow> timestamp \<Rightarrow> bool \<Rightarrow> exn + info_frame option
     \<Rightarrow> stock_valuation_info list \<Rightarrow> exn + stock_valuation_info list" where
  "update_valuation_info_body L smb now ok fetched tbl =
     bindE fetched (\<lambda>df.
       case df of
         None \<Rightarrow> Inr tbl
       | Some fr \<Rightarrow>
           if entries fr = [] then Inr tbl
           else if \<not> has_item_value fr then Inr tbl
           else commit ok
                  (merge_by v_symbol
                     \<lparr>v_symbol = smb,
                      v_market_cap = info_dict_field L (entries fr) L_market_cap,
                      v_total_shares = info_dict_field L (entries fr) L_total_shares,
                      v_outstanding_shares = info_dict_field L (entries fr) L_float_shares,
                      v_pe_ratio = info_dict_field L (entries fr) L_pe_dynamic,
                      v_pb_ratio = info_dict_field L (entries fr) L_pb,
                      v_update_date = now\<rparr>
                     tbl))"

definition update_valuation_info ::
  "pylib \<Rightarrow> string \<Rightarrow> timestamp \<Rightarrow> bool \<Rightarrow> exn + info_frame option
     \<Rightarrow> stock_valuation_info list \<Rightarrow> stock_valuation_info list \<times> exn option" where
  "update_valuation_info L smb now ok fetched tbl =
     handled (update_valuation_info_body L smb now ok fetched tbl) tbl"

definition series_get :: "(label \<times> pval) list \<Rightarrow> label \<Rightarrow> pval \<Rightarrow> exn + pval" where
  \<comment> \<open>\<^verbatim>\<open>info.get(k, d)\<close> on \<^verbatim>\<open>info = df.set_index("item")["value"]\<close>: the value of
      the item, the default when there is none; with the item on several rows the
      result is a Series, which neither \<^verbatim>\<open>float\<close> nor the store accepts\<close>
  "series_get es k d =
     (case filter (\<lambda>e. fst e = k) es of
        [] \<Rightarrow> Inr d
      | [e] \<Rightarrow> Inr (snd e)
      | e # e' # rest \<Rightarrow> Inl TypeError)"

definition set_index_item_value :: "info_frame option \<Rightarrow> exn + (label \<times> pval) list" where
  \<comment> \<open>\<^verbatim>\<open>df.set_index("item")["value"]\<close>\<close>
  "set_index_item_value df =
     (case df of
        None \<Rightarrow> Inl AttributeError
      | Some fr \<Rightarrow> if has_item_value fr then Inr (entries fr) else Inl KeyError)"

definition valuation_of_series ::
  "pylib \<Rightarrow> string \<Rightarrow> timestamp \<Rightarrow> (label \<times> pval) list \<Rightarrow> exn + stock_valuation_info" where
  \<comment> \<open>\<^verbatim>\<open>StockValuationInfo(market_cap=float(info.get(k, 0)), ...)\<close>\<close>
  "valuation_of_series L smb now info =
     bindE (bindE (series_get info L_market_cap (PNum (Float 0))) (py_float L)) (\<lambda>mc.
     bindE (bindE (series_get info L_total_shares (PNum (Float 0))) (py_float L)) (\<lambda>ts.
     bindE (bindE (series_get info L_float_shares (PNum (Float 0))) (py_float L)) (\<lambda>os.
     bindE (bindE (series_get info L_pe_dynamic (PNum (Float 0))) (py_float L)) (\<lambda>pe.
     bindE (bindE (series_get info L_pb (PNum (Float 0))) (py_float L)) (\<lambda>pb.
       Inr \<lparr>v_symbol = smb, v_market_cap = mc, v_total_shares = ts,
            v_outstanding_shares = os, v_pe_ratio = pe, v_pb_ratio = pb,
            v_update_date = now\<rparr>)))))"

section \<open>History load: \<^verbatim>\<open>update_stock_history(full_update)\<close>\<close>

text \<open>
  Four steps, each in its own \<^verbatim>\<open>try/except\<close>: financial metrics, insider trades,
  news, valuation.  \<open>existing\<close> is the row the step's first query found
  (\<^verbatim>\<open>has_data\<close> is \<open>existing \<noteq> None\<close>); with \<^verbatim>\<open>full_update\<close> the query is not
  made.  A loop state is the table with the flag \<^verbatim>\<open>data_updated\<close>.
\<close>

definition not_newer_date :: "pylib \<Rightarrow> bool \<Rightarrow> date option \<Rightarrow> timestamp \<Rightarrow> exn + bool" where
  \<comment> \<open>\<^verbatim>\<open>has_data and not full_update and d <= existing.report_date\<close> (or
      \<^verbatim>\<open>change_date\<close>): \<open>d\<close> is the \<^verbatim>\<open>pd.Timestamp\<close> of the row, the stored value
      a \<^verbatim>\<open>datetime.date\<close>; \<^verbatim>\<open>and\<close> evaluates the comparison only when both tests
      before it hold\<close>
  "not_newer_date L full_update existing d =
     (case existing of
        None \<Rightarrow> Inr False
      | Some e \<Rightarrow>
          if full_update then Inr False
          else (case ts_le_date L d e of None \<Rightarrow> Inl TypeError | Some b \<Rightarrow> Inr b))"

definition not_newer_datetime :: "bool \<Rightarrow> timestamp option \<Rightarrow> timestamp \<Rightarrow> bool" where
  \<comment> \<open>\<^verbatim>\<open>has_data and not full_update and news_date <= existing_news.date\<close>: the stored
      value of the \<^verbatim>\<open>DateTime\<close> column is a datetime, and the comparison is defined\<close>
  "not_newer_datetime full_update existing d =
     (case existing of None \<Rightarrow> False | Some e \<Rightarrow> \<not> full_update \<and> d \<le> e)"

definition commit_if_updated :: "bool \<Rightarrow> 't \<times> bool \<Rightarrow> exn + 't" where
  \<comment> \<open>\<^verbatim>\<open>if data_updated: self.session.commit()\<close>\<close>
  "commit_if_updated ok st = (if snd st then commit ok (fst st) else Inr (fst st))"

definition existing_metrics_date ::
  "string \<Rightarrow> bool \<Rightarrow> stock_financial_metrics list \<Rightarrow> date option" where
  "existing_metrics_date smb full_update tbl =
     (if full_update then None
      else map_option fm_report_date
             (latest_by fm_report_date (filter (\<lambda>x. fm_symbol x = smb) tbl)))"

definition hist_metrics_row ::
  "pylib \<Rightarrow> string \<Rightarrow> bool \<Rightarrow> timestamp \<Rightarrow> date option \<Rightarrow> row
     \<Rightarrow> stock_financial_metrics list \<times> bool \<Rightarrow> exn + stock_financial_metrics list \<times> bool" where
  "hist_metrics_row L smb full_update now existing r st =
     bindE (report_date_of L r) (\<lambda>rd.
     bindE (not_newer_date L full_update existing rd) (\<lambda>skip.
       if skip then Inr st
       else bindE (metrics_of_row L smb now rd r)
              (\<lambda>m. Inr (merge_by metrics_key m (fst st), True))))"

definition hist_metrics_body ::
  "pylib \<Rightarrow> string \<Rightarrow> bool \<Rightarrow> timestamp \<Rightarrow> bool \<Rightarrow> exn + frame
     \<Rightarrow> stock_financial_metrics list \<Rightarrow> exn + stock_financial_metrics list" where
  "hist_metrics_body L smb full_update now ok fetched tbl =
     bindE fetched (\<lambda>df.
       if df = [] then Inr tbl
       else bindE (for_rows (hist_metrics_row L smb full_update now
                               (existing_metrics_date smb full_update tbl)) df (tbl, False))
              (commit_if_updated ok))"

definition existing_trade_date ::
  "string \<Rightarrow> bool \<Rightarrow> stock_insider_trades list \<Rightarrow> date option" where
  "existing_trade_date smb full_update tbl =
     (if full_update then None
      else map_option it_change_date
             (latest_by it_change_date (filter (\<lambda>x. it_symbol x = smb) tbl)))"

definition hist_trades_row ::
  "pylib \<Rightarrow> string \<Rightarrow> bool \<Rightarrow> timestamp \<Rightarrow> date option \<Rightarrow> row
     \<Rightarrow> stock_insider_trades list \<times> bool \<Rightarrow> exn + stock_insider_trades list \<times> bool" where
  "hist_trades_row L smb full_update now existing r st =
     bindE (change_date_of L r) (\<lambda>cd.
     bindE (not_newer_date L full_update existing cd) (\<lambda>skip.
       if skip then Inr st
       else bindE (trade_fields L r)
              (\<lambda>f. Inr (merge_by trade_key (trade_of smb now r cd f) (fst st), True))))"

definition hist_trades_body ::
  "pylib \<Rightarrow> string \<Rightarrow> bool \<Rightarrow> timestamp \<Rightarrow> bool \<Rightarrow> exn + frame \<Rightarrow> exn + frame
     \<Rightarrow> stock_insider_trades list \<Rightarrow> exn + stock_insider_trades list" where
  "hist_trades_body L smb full_update now ok fetched_sse fetched_szse tbl =
     (if startswith smb ''6'' \<or> startswith smb ''0'' \<or> startswith smb ''3'' then
        bindE (if startswith smb ''6'' then fetched_sse else fetched_szse) (\<lambda>df.
          if df = [] then Inr tbl
          else bindE (for_rows (hist_trades_row L smb full_update now
                                  (existing_trade_date smb full_update tbl)) df (tbl, False))
                 (commit_if_updated ok))
      else Inr tbl)"

definition existing_news_date ::
  "string \<Rightarrow> bool \<Rightarrow> timestamp \<Rightarrow> stock_news list \<Rightarrow> timestamp option" where
  "existing_news_date smb full_update thirty_days_ago tbl =
     (if full_update then None
      else map_option n_date
             (latest_by n_date
                (filter (\<lambda>x. n_symbol x = smb \<and> thirty_days_ago \<le> n_date x) tbl)))"

definition hist_news_row ::
  "pylib \<Rightarrow> string \<Rightarrow> bool \<Rightarrow> timestamp \<Rightarrow> timestamp \<Rightarrow> timestamp option \<Rightarrow> row
     \<Rightarrow> stock_news list \<times> bool \<Rightarrow> exn + stock_news list \<times> bool" where
  "hist_news_row L smb full_update now thirty_days_ago existing r st =
     (if \<not> truthy (news_date_str r) then Inr st
      else bindE (to_datetime L (news_date_str r)) (\<lambda>nd.
             if nd < thirty_days_ago then Inr st
             else if not_newer_datetime full_update existing nd then Inr st
             else Inr (merge_by news_key (news_of smb now r nd) (fst st), True)))"

definition delete_old_news :: "string \<Rightarrow> timestamp \<Rightarrow> stock_news list \<Rightarrow> stock_news list" where
  \<comment> \<open>\<^verbatim>\<open>query(StockNews).filter(symbol == s).filter(date < thirty_days_ago).delete()\<close>\<close>
  "delete_old_news smb thirty_days_ago tbl =
     filter (\<lambda>x. \<not> (n_symbol x = smb \<and> n_date x < thirty_days_ago)) tbl"

definition hist_news_merge ::
  "pylib \<Rightarrow> string \<Rightarrow> bool \<Rightarrow> timestamp \<Rightarrow> timestamp \<Rightarrow> bool \<Rightarrow> exn + frame
     \<Rightarrow> stock_news list \<Rightarrow> exn + stock_news list option" where
  \<comment> \<open>step 3 up to and with \<^verbatim>\<open>if data_updated: self.session.commit()\<close>: the table
      this commit leaves, \<open>None\<close> when the frame is empty and the step does nothing\<close>
  "hist_news_merge L smb full_update now thirty_days_ago ok fetched tbl =
     bindE fetched (\<lambda>df.
       if df = [] then Inr None
       else bindE (bindE (for_rows (hist_news_row L smb full_update now thirty_days_ago
                                      (existing_news_date smb full_update thirty_days_ago tbl))
                            df (tbl, False))
                     (commit_if_updated ok))
              (\<lambda>t. Inr (Some t)))"

definition hist_news_step ::
  "pylib \<Rightarrow> string \<Rightarrow> bool \<Rightarrow> timestamp \<Rightarrow> timestamp \<Rightarrow> bool \<Rightarrow> bool \<Rightarrow> exn + frame
     \<Rightarrow> stock_news list \<Rightarrow> stock_news list \<times> exn option" where
  \<comment> \<open>step 3 with its handler.  The delete of old rows has a commit of its own
      (accepted or not: \<open>ok_prune\<close>); when it raises, the rollback returns to what the
      commit before it stored\<close>
  "hist_news_step L smb full_update now thirty_days_ago ok ok_prune fetched tbl =
     (case hist_news_merge L smb full_update now thirty_days_ago ok fetched tbl of
        Inl e \<Rightarrow> (tbl, Some e)
      | Inr None \<Rightarrow> (tbl, None)
      | Inr (Some t) \<Rightarrow> handled (commit ok_prune (delete_old_news smb thirty_days_ago t)) t)"

definition existing_valuation ::
  "string \<Rightarrow> bool \<Rightarrow> timestamp \<Rightarrow> stock_valuation_info list \<Rightarrow> timestamp option" where
  "existing_valuation smb full_update thirty_days_ago tbl =
     (if full_update then None
      else map_option v_update_date
             (latest_by v_update_date
                (filter (\<lambda>x. v_symbol x = smb \<and> thirty_days_ago \<le> v_update_date x) tbl)))"

definition delete_old_valuation ::
  "string \<Rightarrow> timestamp \<Rightarrow> stock_valuation_info list \<Rightarrow> stock_valuation_info list" where
  "delete_old_valuation smb thirty_days_ago tbl =
     filter (\<lambda>x. \<not> (v_symbol x = smb \<and> v_update_date x < thirty_days_ago)) tbl"

definition hist_valuation_merge ::
  "pylib \<Rightarrow> string \<Rightarrow> bool \<Rightarrow> timestamp \<Rightarrow> timestamp \<Rightarrow> bool \<Rightarrow> exn + info_frame option
     \<Rightarrow> stock_valuation_info list \<Rightarrow> exn + stock_valuation_info list option" where
  \<comment> \<open>step 4 up to and with the commit of the merged row: the table this commit
      leaves, \<open>None\<close> when the step does not fetch or the frame is empty\<close>
  "hist_valuation_merge L smb full_update now thirty_days_ago ok fetched tbl =
     (if existing_valuation smb full_update thirty_days_ago tbl = None \<or> full_update then
        bindE fetched (\<lambda>df.
          case df of
            None \<Rightarrow> Inl AttributeError
          | Some fr \<Rightarrow>
              if entries fr = [] then Inr None
              else bindE (set_index_item_value df) (\<lambda>info.
                   bindE (valuation_of_series L smb now info) (\<lambda>v.
                   bindE (commit ok (merge_by v_symbol v tbl)) (\<lambda>t. Inr (Some t)))))
      else Inr None)"

definition hist_valuation_step ::
  "pylib \<Rightarrow> string \<Rightarrow> bool \<Rightarrow> timestamp \<Rightarrow> timestamp \<Rightarrow> bool \<Rightarrow> bool
     \<Rightarrow> exn + info_frame option \<Rightarrow> stock_valuation_info list
     \<Rightarrow> stock_valuation_info list \<times> exn option" where
  \<comment> \<open>step 4 with its handler; the delete of old rows and its commit follow the
      commit of the merged row\<close>
  "hist_valuation_step L smb full_update now thirty_days_ago ok ok_prune fetched tbl =
     (case hist_valuation_merge L smb full_update now thirty_days_ago ok fetched tbl of
        Inl e \<Rightarrow> (tbl, Some e)
      | Inr None \<Rightarrow> (tbl, None)
      | Inr (Some t) \<Rightarrow>
          handled (commit ok_prune (delete_old_valuation smb thirty_days_ago t)) t)"

text \<open>
  The steps named in a run's error log, and what the outside world gives one run:
  the result of each provider call and, per step, whether the store accepts the
  step's commit (\<open>p_commit\<close>) and, where a step deletes old rows, the commit after
  the delete (\<open>p_commit_prune\<close>).
\<close>

datatype step =
  S_basic | S_price | S_daily_price | S_metrics | S_trades | S_news | S_valuation

record provider =
  p_info_basic :: "exn + info_frame option"
  p_board_industry :: "exn + frame"
  p_hist :: "exn + frame"
  p_hist_today :: "exn + frame"
  p_fin :: "exn + frame"
  p_sse :: "exn + frame"
  p_szse :: "exn + frame"
  p_news :: "exn + frame"
  p_info :: "exn + info_frame option"
  p_commit :: "step \<Rightarrow> bool"
  p_commit_prune :: "step \<Rightarrow> bool"

definition logged :: "step \<Rightarrow> exn option \<Rightarrow> (step \<times> exn) list" where
  \<comment> \<open>the \<^verbatim>\<open>logger.error\<close> line of a step's handler\<close>
  "logged k e = (case e of None \<Rightarrow> [] | Some x \<Rightarrow> [(k, x)])"

definition update_stock_history ::
  "pylib \<Rightarrow> string \<Rightarrow> bool \<Rightarrow> timestamp \<Rightarrow> timestamp \<Rightarrow> provider \<Rightarrow> store
     \<Rightarrow> store \<times> (step \<times> exn) list" where
  \<comment> \<open>\<open>now\<close> is \<^verbatim>\<open>datetime.now()\<close> and \<open>pnow\<close> is \<^verbatim>\<open>pd.Timestamp.now()\<close>, read next\<close>
  "update_stock_history L smb full_update now pnow P db =
     (let thirty_days_ago = pnow - timedelta_days 30;
          m = handled (hist_metrics_body L smb full_update now (p_commit P S_metrics)
                         (p_fin P) (tbl_metrics db)) (tbl_metrics db);
          t = handled (hist_trades_body L smb full_update now (p_commit P S_trades)
                         (p_sse P) (p_szse P) (tbl_trades db)) (tbl_trades db);
          n = hist_news_step L smb full_update now thirty_days_ago (p_commit P S_news)
                (p_commit_prune P S_news) (p_news P) (tbl_news db);
          v = hist_valuation_step L smb full_update now thirty_days_ago
                (p_commit P S_valuation) (p_commit_prune P S_valuation) (p_info P)
                (tbl_valuation db)
      in (db\<lparr>tbl_metrics := fst m, tbl_trades := fst t, tbl_news := fst n,
               tbl_valuation := fst v\<rparr>,
          logged S_metrics (snd m) @ logged S_trades (snd t) @ logged S_news (snd n)
            @ logged S_valuation (snd v)))"

section \<open>Daily update: \<^verbatim>\<open>update_daily_price\<close> and the method \<^verbatim>\<open>update_daily_data\<close>\<close>

definition update_daily_price_body ::
  "pylib \<Rightarrow> string \<Rightarrow> bool \<Rightarrow> exn + frame \<Rightarrow> stock_daily list \<Rightarrow> exn + stock_daily list" where
  "update_daily_price_body L smb ok fetched tbl =
     (let latest_price = latest_by d_trade_date (filter (\<lambda>x. d_symbol x = smb) tbl)
      in bindE fetched (\<lambda>df.
           if df = [] then Inr tbl
           else bindE (for_rows (\<lambda>r t.
                         bindE (bindE (row_index r L_date) (to_datetime L)) (\<lambda>td.
                           if (case latest_price of
                                 None \<Rightarrow> False
                               | Some lp \<Rightarrow> date_of (d_trade_date lp) = date_of td)
                           then Inr t
                           else bindE (price_at L smb td r) (\<lambda>p. Inr (merge_daily p t))))
                       df tbl)
                  (commit ok)))"

definition update_daily_price ::
  "pylib \<Rightarrow> string \<Rightarrow> bool \<Rightarrow> exn + frame \<Rightarrow> stock_daily list \<Rightarrow> stock_daily list \<times> exn option" where
  "update_daily_price L smb ok fetched tbl =
     handled (update_daily_price_body L smb ok fetched tbl) tbl"

definition last_update :: "string \<Rightarrow> stock_valuation_info list \<Rightarrow> timestamp option" where
  \<comment> \<open>\<^verbatim>\<open>query(StockValuationInfo.update_date).filter(symbol == s)
      .order_by(update_date.desc()).first()\<close>\<close>
  "last_update smb tbl =
     map_option v_update_date (latest_by v_update_date (filter (\<lambda>x. v_symbol x = smb) tbl))"

definition updated_today :: "timestamp \<Rightarrow> string \<Rightarrow> stock_valuation_info list \<Rightarrow> bool" where
  \<comment> \<open>\<^verbatim>\<open>last_update and last_update[0].date() == datetime.now().date()\<close>: the test
      before the early \<^verbatim>\<open>return\<close>\<close>
  "updated_today now smb tbl =
     (case last_update smb tbl of None \<Rightarrow> False | Some t \<Rightarrow> date_of t = date_of now)"

definition daily_metrics_body ::
  "pylib \<Rightarrow> string \<Rightarrow> timestamp \<Rightarrow> bool \<Rightarrow> exn + frame \<Rightarrow> stock_financial_metrics list
     \<Rightarrow> exn + stock_financial_metrics list" where
  \<comment> \<open>step 2: the first row of the frame (\<^verbatim>\<open>df.iloc[0]\<close>) is written when no stored
      row has its report date; the query compares \<^verbatim>\<open>Date\<close> values, that is days\<close>
  "daily_metrics_body L smb now ok fetched tbl =
     bindE fetched (\<lambda>df.
       case df of
         [] \<Rightarrow> Inr tbl
       | r # rest \<Rightarrow>
           bindE (report_date_of L r) (\<lambda>latest_report_date.
             if filter (\<lambda>x. fm_symbol x = smb
                            \<and> fm_report_date x = date_of latest_report_date) tbl \<noteq> []
             then Inr tbl
             else bindE (metrics_of_row L smb now latest_report_date r)
                    (\<lambda>m. commit ok (merge_by metrics_key m tbl))))"

definition today_rows :: "pylib \<Rightarrow> timestamp \<Rightarrow> label \<Rightarrow> frame \<Rightarrow> exn + frame" where
  \<comment> \<open>\<^verbatim>\<open>df[pd.to_datetime(df[label]).dt.date == today]\<close>: the column must exist and
      convert; a \<^verbatim>\<open>NaT\<close> cell is no day\<close>
  "today_rows L now k df =
     for_rows (\<lambda>r acc.
        bindE (row_index r k) (\<lambda>v.
          case pd_to_datetime L v of
            Stamp t \<Rightarrow> Inr (if date_of t = date_of now then acc @ [r] else acc)
          | NaT \<Rightarrow> Inr acc
          | DtError \<Rightarrow> Inl ValueError))
      df []"

definition daily_trades_body ::
  "pylib \<Rightarrow> string \<Rightarrow> timestamp \<Rightarrow> bool \<Rightarrow> exn + frame \<Rightarrow> exn + frame \<Rightarrow> exn + frame
     \<Rightarrow> stock_insider_trades list \<Rightarrow> exn + stock_insider_trades list" where
  \<comment> \<open>step 3.  For a symbol that starts with none of 6, 0, 3 the variable \<^verbatim>\<open>df\<close> is
      still the frame of step 2, or unbound when that fetch raised\<close>
  "daily_trades_body L smb now ok fetched_fin fetched_sse fetched_szse tbl =
     bindE (if startswith smb ''6'' then fetched_sse
            else if startswith smb ''0'' \<or> startswith smb ''3'' then fetched_szse
            else (case fetched_fin of Inl e \<Rightarrow> Inl UnboundLocalError | Inr d \<Rightarrow> Inr d))
       (\<lambda>df.
          if df = [] then Inr tbl
          else bindE (today_rows L now L_change_date df) (\<lambda>today_trades.
               bindE (trades_loop L smb now today_trades tbl) (commit ok)))"

definition daily_news_body ::
  "pylib \<Rightarrow> string \<Rightarrow> timestamp \<Rightarrow> bool \<Rightarrow> exn + frame \<Rightarrow> stock_news list
     \<Rightarrow> exn + stock_news list" where
  "daily_news_body L smb now ok fetched tbl =
     bindE fetched (\<lambda>df.
       if df = [] then Inr tbl
       else bindE (today_rows L now L_time df) (\<lambda>today_news.
            bindE (for_rows (\<lambda>r t.
                      if \<not> truthy (news_date_str r) then Inr t
                      else bindE (to_datetime L (news_date_str r))
                             (\<lambda>nd. Inr (merge_by news_key (news_of smb now r nd) t)))
                    today_news tbl)
              (commit ok)))"

definition daily_valuation_body ::
  "pylib \<Rightarrow> string \<Rightarrow> timestamp \<Rightarrow> bool \<Rightarrow> exn + info_frame option
     \<Rightarrow> stock_valuation_info list \<Rightarrow> exn + stock_valuation_info list" where
  "daily_valuation_body L smb now ok fetched tbl =
     bindE fetched (\<lambda>df.
     bindE (set_index_item_value df) (\<lambda>info.
     bindE (valuation_of_series L smb now info) (\<lambda>v.
       commit ok (merge_by v_symbol v tbl))))"

definition daily_update ::
  "pylib \<Rightarrow> string \<Rightarrow> timestamp \<Rightarrow> provider \<Rightarrow> store \<Rightarrow> store \<times> (step \<times> exn) list" where
  \<comment> \<open>the method \<^verbatim>\<open>StockDataLoader.update_daily_data\<close>\<close>
  "daily_update L smb now P db =
     (if updated_today now smb (tbl_valuation db) then (db, [])
      else
        (let d = update_daily_price L smb (p_commit P S_daily_price) (p_hist_today P)
                   (tbl_daily db);
             m = handled (daily_metrics_body L smb now (p_commit P S_metrics) (p_fin P)
                            (tbl_metrics db)) (tbl_metrics db);
             t = handled (daily_trades_body L smb now (p_commit P S_trades) (p_fin P)
                            (p_sse P) (p_szse P) (tbl_trades db)) (tbl_trades db);
             n = handled (daily_news_body L smb now (p_commit P S_news) (p_news P)
                            (tbl_news db)) (tbl_news db);
             v = handled (daily_valuation_body L smb now (p_commit P S_valuation) (p_info P)
                            (tbl_valuation db)) (tbl_valuation db)
         in (db\<lparr>tbl_daily := fst d, tbl_metrics := fst m, tbl_trades := fst t,
                  tbl_news := fst n, tbl_valuation := fst v\<rparr>,
             logged S_daily_price (snd d) @ logged S_metrics (snd m) @ logged S_trades (snd t)
               @ logged S_news (snd n) @ logged S_valuation (snd v))))"

section \<open>Full update: \<^verbatim>\<open>update_stock_basic\<close>, \<^verbatim>\<open>update_all_data\<close> and the function \<^verbatim>\<open>update_daily_data\<close>\<close>







text \<open>
  The store files: \<open>fs s\<close> is the store in \<^verbatim>\<open>data/db/stock_<s>.db\<close>, \<open>None\<close> when
  the file does not exist.  \<^verbatim>\<open>StockDataLoader(symbol)\<close> creates a missing file with
  six empty tables.
\<close>

definition empty_store :: store where
  "empty_store = \<lparr>tbl_basic = [], tbl_daily = [], tbl_metrics = [], tbl_trades = [],
                   tbl_news = [], tbl_valuation = []\<rparr>"


section \<open>Read-only accessors: \<^verbatim>\<open>data_fetcher.py\<close> and \<^verbatim>\<open>data/cache.py\<close>\<close>

text \<open>
  A response is the list of its items, each the tuple of the fields the source copies
  from the stored row (the response classes of \<^verbatim>\<open>src.data.models\<close> only hold them;
  fields set to \<^verbatim>\<open>None\<close> and the product \<^verbatim>\<open>transaction_value\<close> are left out).
\<close>

definition get_db_session :: "(string \<Rightarrow> store option) \<Rightarrow> string \<Rightarrow> exn + store" where
  \<comment> \<open>\<^verbatim>\<open>if not db_path.exists(): raise FileNotFoundError\<close>, else a session on the file\<close>
  "get_db_session fs smb = (case fs smb of None \<Rightarrow> Inl FileNotFoundError | Some db \<Rightarrow> Inr db)"

definition get_price_response ::
  "(string \<Rightarrow> store option) \<Rightarrow> string
     \<Rightarrow> exn + (pyfloat \<times> pyfloat \<times> pyfloat \<times> pyfloat \<times> pyfloat \<times> int) list" where
  \<comment> \<open>open, close, high, low, \<^verbatim>\<open>int(row.volume)\<close> and the day of the trade date, newest
      first\<close>
  "get_price_response fs smb =
     bindE (get_db_session fs smb) (\<lambda>db.
       for_rows (\<lambda>x acc.
          bindE (py_int (d_volume x)) (\<lambda>vol.
            Inr (acc @ [(d_open x, d_close x, d_high x, d_low x, vol, date_of (d_trade_date x))])))
        (sort_key (\<lambda>x. - d_trade_date x) (filter (\<lambda>x. d_symbol x = smb) (tbl_daily db))) [])"

definition get_financial_metrics_response ::
  "(string \<Rightarrow> store option) \<Rightarrow> string
     \<Rightarrow> exn + (string \<times> int \<times> pyfloat \<times> pyfloat \<times> pyfloat \<times> pyfloat
                \<times> (pyfloat \<times> pyfloat \<times> pyfloat) option) list" where
  \<comment> \<open>ticker, report day, EPS, ROE, net margin, gross margin, and market cap, P/E and
      P/B of the latest valuation row when there is one\<close>
  "get_financial_metrics_response fs smb =
     bindE (get_db_session fs smb) (\<lambda>db.
       Inr (map (\<lambda>x. (smb, fm_report_date x, fm_eps x, fm_roe x,
                       fm_net_profit_ratio x, fm_gross_profit_rate x,
                       map_option (\<lambda>v. (v_market_cap v, v_pe_ratio v, v_pb_ratio v))
                         (latest_by v_update_date
                            (filter (\<lambda>v. v_symbol v = smb) (tbl_valuation db)))))
              (sort_key (\<lambda>x. - fm_report_date x)
                 (filter (\<lambda>x. fm_symbol x = smb) (tbl_metrics db)))))"

definition get_insider_trade_response ::
  "(string \<Rightarrow> store option) \<Rightarrow> string
     \<Rightarrow> exn + (string \<times> pval \<times> int \<times> pyfloat \<times> pyfloat \<times> int) list" where
  \<comment> \<open>ticker, name, transaction day, shares, price per share, filing day\<close>
  "get_insider_trade_response fs smb =
     bindE (get_db_session fs smb) (\<lambda>db.
       Inr (map (\<lambda>x. (smb, it_holder_name x, it_change_date x, it_shares_changed x,
                       it_price x, date_of (it_update_date x)))
              (sort_key (\<lambda>x. - it_change_date x)
                 (filter (\<lambda>x. it_symbol x = smb) (tbl_trades db)))))"

definition get_company_news_response ::
  "(string \<Rightarrow> store option) \<Rightarrow> string \<Rightarrow> exn + (string \<times> pval \<times> int \<times> string \<times> pval) list" where
  \<comment> \<open>ticker, title, day, source, url\<close>
  "get_company_news_response fs smb =
     bindE (get_db_session fs smb) (\<lambda>db.
       Inr (map (\<lambda>x. (smb, n_title x, date_of (n_date x), n_source x, n_url x))
              (sort_key (\<lambda>x. - n_date x) (filter (\<lambda>x. n_symbol x = smb) (tbl_news db)))))"

definition cache_get :: "exn + 'a \<Rightarrow> 'a option" where
  \<comment> \<open>the body shared by the four \<^verbatim>\<open>Cache\<close> accessors:
      \<^verbatim>\<open>try: return response-items  except FileNotFoundError: return None
      except Exception: print(...); return None\<close>\<close>
  "cache_get response =
     (case response of
        Inr items \<Rightarrow> Some items
      | Inl e \<Rightarrow> if e = FileNotFoundError then None else None)"

definition get_prices where
  "get_prices fs ticker = cache_get (get_price_response fs ticker)"

definition get_financial_metrics where
  "get_financial_metrics fs ticker = cache_get (get_financial_metrics_response fs ticker)"

definition get_insider_trades where
  "get_insider_trades fs ticker = cache_get (get_insider_trade_response fs ticker)"

definition get_company_news where
  "get_company_news fs ticker = cache_get (get_company_news_response fs ticker)"

section \<open>The metrics step of \<^verbatim>\<open>main\<close>\<close>

definition ts_1900 :: timestamp where
  \<comment> \<open>\<^verbatim>\<open>pd.Timestamp("1900-01-01")\<close>, 25567 days before the epoch\<close>
  "ts_1900 = - 25567 * day_us"

definition main_metrics_row ::
  "pylib \<Rightarrow> string \<Rightarrow> timestamp \<Rightarrow> row \<Rightarrow> exn + stock_financial_metrics" where
  \<comment> \<open>the loop body of step 4 of \<^verbatim>\<open>main\<close>: it builds the object and does not merge it\<close>
  "main_metrics_row L smb now r =
     (let raw_date = py_or (py_or (row_get r L_report_period PNone) (row_get r L_report_date PNone))
                       (row_get r L_publish_date PNone)
      in bindE (if truthy raw_date then to_datetime L raw_date else Inr ts_1900)
           (\<lambda>rd. metrics_of_row L smb now rd r))"

definition main_metrics_body ::
  "pylib \<Rightarrow> string \<Rightarrow> timestamp \<Rightarrow> bool \<Rightarrow> exn + frame \<Rightarrow> stock_financial_metrics list
     \<Rightarrow> exn + stock_financial_metrics list" where
  \<comment> \<open>step 4 of \<^verbatim>\<open>main\<close>.  The inner \<^verbatim>\<open>try\<close> holds the whole loop and, after it, one
      \<^verbatim>\<open>session.merge(metrics)\<close> of the last object built; its handler only warns, and
      the commit follows in either case\<close>
  "main_metrics_body L smb now ok fetched tbl =
     bindE fetched (\<lambda>df.
       if df = [] then Inr tbl
       else commit ok
              (case for_rows (\<lambda>r last. bindE (main_metrics_row L smb now r) (\<lambda>m. Inr (Some m)))
                      df None of
                 Inl e \<Rightarrow> tbl
               | Inr None \<Rightarrow> tbl
               | Inr (Some m) \<Rightarrow> merge_by metrics_key m tbl))"

section \<open>Words of the specification\<close>

definition absent_or_non_numeric :: "pylib \<Rightarrow> (label \<times> pval) list \<Rightarrow> label \<Rightarrow> bool" where
  \<comment> \<open>"absent or non-numeric" for an item of the individual-info frame: no row has the
      item, or its value is not a string, or it is a string that \<^verbatim>\<open>float\<close> rejects
      once the commas are removed\<close>
  "absent_or_non_numeric L es k =
     (case map_of (rev es) k of
        None \<Rightarrow> True
      | Some (PStr s) \<Rightarrow> str_float L (filter (\<lambda>c. c \<noteq> CHR '','') s) = None
      | Some v \<Rightarrow> True)"

section \<open>Concrete inputs\<close>

text \<open>
  A library instance and provider rows on which the definitions are evaluated:
  \<^verbatim>\<open>float("0")\<close> is \<open>0\<close> and no other string is a number; a datetime object converts
  to itself, \<^verbatim>\<open>None\<close> to \<^verbatim>\<open>NaT\<close>, and nothing else converts; a \<^verbatim>\<open>pd.Timestamp\<close>
  does not compare with a \<^verbatim>\<open>datetime.date\<close> (pandas 2).  Days are written as day
  numbers, counted from 1970-01-01: 19813 is 2024-03-31, 19840 is 2024-04-27, 19904 is
  2024-06-30 and 19950 is 2024-08-15.
\<close>

definition lib0 :: pylib where
  "lib0 = \<lparr>str_float = (\<lambda>s. if s = ''0'' then Some (Float 0) else None),
           pd_to_datetime = (\<lambda>v. case v of PTime t \<Rightarrow> Stamp t | PNone \<Rightarrow> NaT
                                   | PNum f \<Rightarrow> DtError | PStr s \<Rightarrow> DtError),
           ts_le_date = (\<lambda>t d. None)\<rparr>"

definition price_row :: "timestamp \<Rightarrow> row" where
  "price_row d =
     [(L_date, PTime d), (L_open, PNum (Float 10)), (L_high, PNum (Float 12)),
      (L_low, PNum (Float 9)), (L_close, PNum (Float 11)), (L_volume, PNum (Float 1000)),
      (L_amount, PNum (Float 11000))]"

definition fin_row :: "timestamp \<Rightarrow> pval \<Rightarrow> row" where
  \<comment> \<open>a financial-indicator row with report period \<open>d\<close> and the cell \<open>v\<close> as ROE\<close>
  "fin_row d v =
     [(L_report_period, PTime d), (L_roe, v), (L_net_margin, PNum (Float 2)),
      (L_gross_margin, PNum (Float 3)), (L_net_profit, PNum (Float 4)),
      (L_eps, PNum (Float 5)), (L_income, PNum (Float 6))]"

definition fin_stored :: "string \<Rightarrow> date \<Rightarrow> timestamp \<Rightarrow> stock_financial_metrics" where
  \<comment> \<open>the stored row of a \<open>fin_row\<close> with ROE 1 and a report period on day \<open>d\<close>, written
      at time \<open>u\<close>\<close>
  "fin_stored smb d u =
     \<lparr>fm_symbol = smb, fm_report_date = d, fm_roe = Float 1, fm_net_profit_ratio = Float 2,
      fm_gross_profit_rate = Float 3, fm_net_profits = Float 4, fm_eps = Float 5,
      fm_main_business_income = Float 6, fm_update_date = u\<rparr>"

definition trade_row :: "timestamp \<Rightarrow> row" where
  "trade_row d =
     [(L_officer_name, PStr ''Li''), (L_shares_changed, PNum (Float 100)),
      (L_avg_price, PNum (Float 7)), (L_change_date, PTime d), (L_change_reason, PStr ''buy'')]"

definition trade_stored :: "string \<Rightarrow> date \<Rightarrow> timestamp \<Rightarrow> stock_insider_trades" where
  \<comment> \<open>the stored row of a \<open>trade_row\<close> with a change date on day \<open>d\<close>\<close>
  "trade_stored smb d u =
     \<lparr>it_symbol = smb, it_holder_name = PStr ''Li'', it_change_date = d,
      it_change_type = PStr ''buy'', it_shares_changed = Float 100, it_price = Float 7,
      it_update_date = u\<rparr>"

definition news_row :: "timestamp \<Rightarrow> row" where
  "news_row d = [(L_time, PTime d), (L_title, PStr ''t''), (L_link, PStr ''u'')]"

definition news_stored :: "string \<Rightarrow> timestamp \<Rightarrow> timestamp \<Rightarrow> stock_news" where
  "news_stored smb d u =
     \<lparr>n_symbol = smb, n_title = PStr ''t'', n_date = d, n_source = eastmoney,
      n_url = PStr ''u'', n_update_date = u\<rparr>"

definition val_stored :: "string \<Rightarrow> pyfloat \<Rightarrow> timestamp \<Rightarrow> stock_valuation_info" where
  "val_stored smb x u =
     \<lparr>v_symbol = smb, v_market_cap = x, v_total_shares = x, v_outstanding_shares = x,
      v_pe_ratio = x, v_pb_ratio = x, v_update_date = u\<rparr>"

definition quiet :: provider where
  \<comment> \<open>a provider whose every frame is empty, on a store that accepts every commit\<close>
  "quiet = \<lparr>p_info_basic = Inr (Some (InfoFrame True [])), p_board_industry = Inr [],
            p_hist = Inr [], p_hist_today = Inr [], p_fin = Inr [], p_sse = Inr [],
            p_szse = Inr [], p_news = Inr [], p_info = Inr (Some (InfoFrame True [])),
            p_commit = (\<lambda>k. True), p_commit_prune = (\<lambda>k. True)\<rparr>"

definition fresh_news :: provider where
  \<comment> \<open>one news row dated day 99 and a one-item valuation frame; nothing else\<close>
  "fresh_news = quiet\<lparr>p_news := Inr [news_row (99 * day_us)],
                       p_info := Inr (Some (InfoFrame True [(L_pb, PNum (Float 3))]))\<rparr>"

definition aged_store :: store where
  \<comment> \<open>news rows dated day 69 and day 71, and a valuation row written on day 69\<close>
  "aged_store = empty_store\<lparr>tbl_news := [news_stored ''601318'' (69 * day_us) (69 * day_us),
                                        news_stored ''601318'' (71 * day_us) (71 * day_us)],
                            tbl_valuation := [val_stored ''601318'' (Float 1) (69 * day_us)]\<rparr>"

definition refetch :: provider where
  \<comment> \<open>one row per entity, each no newer than what \<open>kept_store\<close> holds; the call for
      the other exchange would raise\<close>
  "refetch = quiet\<lparr>p_fin := Inr [fin_row (midnight 10) (PNum (Float 1))],
                    p_sse := Inr [trade_row (midnight 10)], p_szse := Inl FetchError,
                    p_news := Inr [news_row (99 * day_us)],
                    p_info := Inr (Some (InfoFrame True [(L_pb, PNum (Float 3))]))\<rparr>"

definition kept_store :: store where
  \<comment> \<open>a report period and a trade of day 90, a news row and a valuation row of day 99\<close>
  "kept_store = empty_store\<lparr>tbl_metrics := [fin_stored ''601318'' 90 (91 * day_us)],
                            tbl_trades := [trade_stored ''601318'' 90 (91 * day_us)],
                            tbl_news := [news_stored ''601318'' (99 * day_us) (99 * day_us)],
                            tbl_valuation := [val_stored ''601318'' (Float 1) (99 * day_us)]\<rparr>"

definition trades_down :: provider where
  \<comment> \<open>as \<open>fresh_news\<close>, but both shareholding-change calls raise\<close>
  "trades_down = fresh_news\<lparr>p_sse := Inl FetchError, p_szse := Inl FetchError\<rparr>"

definition prune_refused :: provider where
  \<comment> \<open>as \<open>fresh_news\<close>, on a store that refuses the commit after each delete of old rows\<close>
  "prune_refused = fresh_news\<lparr>p_commit_prune := (\<lambda>k. False)\<rparr>"

definition news_down :: provider where
  \<comment> \<open>as \<open>fresh_news\<close>, but the news call and the valuation call raise\<close>
  "news_down = fresh_news\<lparr>p_news := Inl FetchError, p_info := Inl FetchError\<rparr>"

definition reported_q1 :: store where
  \<comment> \<open>a metric row of the report period 2024-03-31 and a trade of that day, both
      written on 2024-04-27\<close>
  "reported_q1 = empty_store\<lparr>tbl_metrics := [fin_stored ''601318'' 19813 (midnight 19840)],
                             tbl_trades := [trade_stored ''601318'' 19813 (midnight 19840)]\<rparr>"

definition q1_q2 :: provider where
  \<comment> \<open>metric rows of the report periods 2024-03-31 and 2024-06-30, and trades of these
      two days\<close>
  "q1_q2 = quiet\<lparr>p_fin := Inr [fin_row (midnight 19813) (PNum (Float 1)),
                                 fin_row (midnight 19904) (PNum (Float 1))],
                  p_sse := Inr [trade_row (midnight 19813), trade_row (midnight 19904)]\<rparr>"

definition lib_pandas1 :: pylib where
  \<comment> \<open>as \<open>lib0\<close>, with the comparison of pandas 1: the day counts as its midnight\<close>
  "lib_pandas1 = lib0\<lparr>ts_le_date := (\<lambda>t d. Some (t \<le> midnight d))\<rparr>"

definition metrics_today :: store where
  \<comment> \<open>a financial-metric row written on day 100; no valuation row\<close>
  "metrics_today = empty_store\<lparr>tbl_metrics := [fin_stored ''601318'' 10 (100 * day_us)]\<rparr>"

definition valued_today :: store where
  \<comment> \<open>a valuation row written on day 100; the stored report period is day 10; no news\<close>
  "valued_today = empty_store\<lparr>tbl_metrics := [fin_stored ''601318'' 10 (11 * day_us)],
                    tbl_valuation := [val_stored ''601318'' (Float 1) (100 * day_us)]\<rparr>"

definition stale_valuation :: store where
  \<comment> \<open>as \<open>valued_today\<close>, with the valuation row written on day 69\<close>
  "stale_valuation = empty_store\<lparr>tbl_metrics := [fin_stored ''601318'' 10 (11 * day_us)],
                       tbl_valuation := [val_stored ''601318'' (Float 1) (69 * day_us)]\<rparr>"

definition news_today :: provider where
  "news_today = quiet\<lparr>p_news := Inr [news_row (100 * day_us + 1)]\<rparr>"

definition new_report :: provider where
  \<comment> \<open>the provider's first financial row has the report period of day 90\<close>
  "new_report = quiet\<lparr>p_fin := Inr [fin_row (midnight 90) (PNum (Float 1))]\<rparr>"

definition same_report :: provider where
  \<comment> \<open>the provider's first financial row has the report period of day 10, with another
      ROE than the stored row\<close>
  "same_report = quiet\<lparr>p_fin := Inr [fin_row (midnight 10 + 1) (PNum (Float 9))]\<rparr>"

section \<open>Basic facts about the model\<close>

lemma bindE_Inr_iff: "bindE m f = Inr y \<longleftrightarrow> (\<exists>x. m = Inr x \<and> f x = Inr y)"
  by (cases m) (simp_all add: bindE_def)

lemma bindE_Inl_iff: "bindE m f = Inl e \<longleftrightarrow> m = Inl e \<or> (\<exists>x. m = Inr x \<and> f x = Inl e)"
  by (cases m) (simp_all add: bindE_def)

lemma bindE_simps: "bindE (Inl e) f = Inl e" "bindE (Inr x) f = f x"
  by (simp_all add: bindE_def)

lemma latest_by_None: "latest_by f xs = None \<longleftrightarrow> xs = []"
  by (induction xs) (auto split: option.splits)




lemma merge_by_keys: "key ` set (merge_by key r t) = insert (key r) (key ` set t)"
  by (induction t) auto

lemma merge_by_keeps: "x \<in> set t \<Longrightarrow> \<exists>y\<in>set (merge_by key r t). key y = key x"
  using merge_by_keys[of key r t] by (metis image_iff insertI2)

lemma merge_by_other: "x \<in> set t \<Longrightarrow> key x \<noteq> key r \<Longrightarrow> x \<in> set (merge_by key r t)"
  by (induction t) auto

lemma merge_by_distinct: "distinct (map key t) \<Longrightarrow> distinct (map key (merge_by key r t))"
proof (induction t)
  case Nil
  then show ?case by simp
next
  case (Cons a t)
  then show ?case
    using merge_by_keys[of key r t] by (auto simp: image_iff)
qed

lemma merge_by_twice: "key r' = key r \<Longrightarrow> merge_by key r' (merge_by key r t) = merge_by key r' t"
  by (induction t) auto

lemma merge_by_absent: "key r \<notin> key ` set t \<Longrightarrow> merge_by key r t = t @ [r]"
  by (induction t) auto

lemma commit_if_updated_fst: "commit_if_updated ok st = Inr t \<Longrightarrow> t = fst st"
  by (auto simp: commit_if_updated_def commit_def split: if_splits)

lemma date_of_midnight: "date_of (midnight d) = d"
  by (simp add: date_of_def midnight_def day_us_def)

lemma not_newer_date_full: "not_newer_date L True ex d = Inr False"
  by (simp add: not_newer_date_def split: option.splits)

lemma not_newer_datetime_full: "\<not> not_newer_datetime True ex d"
  by (simp add: not_newer_datetime_def split: option.splits)

lemmas ev = bindE_def handled_def commit_def row_index_def row_get_def float_at_def py_float_def
  to_datetime_def lib0_def price_row_def fin_row_def trade_row_def news_row_def
  fin_stored_def trade_stored_def news_stored_def val_stored_def

lemmas ev2 = hist_metrics_body_def hist_metrics_row_def existing_metrics_date_def
  not_newer_date_def not_newer_datetime_def
  commit_if_updated_def report_date_of_def metrics_of_row_def metrics_key_def
  hist_trades_body_def hist_trades_row_def existing_trade_date_def change_date_of_def
  trade_fields_def trade_of_def trade_key_def startswith_def py_or_def truthy_def notna_def
  py_int_def unknown_name_def date_of_def midnight_def day_us_def

lemmas ev3 = update_stock_history_def hist_news_merge_def hist_news_step_def
  hist_valuation_merge_def hist_valuation_step_def
  hist_news_row_def existing_news_date_def existing_valuation_def delete_old_news_def
  delete_old_valuation_def news_of_def news_date_str_def news_key_def logged_def quiet_def
  empty_store_def timedelta_days_def day_us_def valuation_of_series_def series_get_def
  set_index_item_value_def

section \<open>Merging by key\<close>

text \<open>
  C1 (every collection merges by its composite key, DailyPrice by symbol and trade
  date).  \<^verbatim>\<open>update_stock_price\<close> run twice on the same one-row frame stores two
  rows with the same symbol and trade date: \<^verbatim>\<open>StockDaily\<close> is keyed by its surrogate
  \<^verbatim>\<open>id\<close>, which the loader never sets, so every merge inserts.  The five tables
  with a declared key do merge by it: a second merge under the same key replaces the
  first (\<open>merge_by_twice\<close>) and keys stay distinct (\<open>merge_by_distinct\<close>).
\<close>

theorem update_stock_price_refetch_duplicates:
  "map (\<lambda>x. (d_id x, d_symbol x, d_trade_date x))
     (fst (update_stock_price lib0 ''601318'' True (Inr [price_row 0])
        (fst (update_stock_price lib0 ''601318'' True (Inr [price_row 0]) []))))
   = [(Some 1, ''601318'', 0), (Some 2, ''601318'', 0)]"
  by (simp add: update_stock_price_def update_stock_price_body_def price_of_row_def price_at_def
      merge_daily_def next_rowid_def ev)

section \<open>Monotonic entities\<close>

text \<open>
  Steps 1 and 2 of \<^verbatim>\<open>update_stock_history\<close> compare the \<^verbatim>\<open>pd.Timestamp\<close> of a
  fetched row with the \<^verbatim>\<open>datetime.date\<close> of the latest stored row.  Where the
  library refuses this comparison (pandas 2), an incremental step that finds a
  stored row of the security raises at the first fetched row whose date converts.
\<close>

lemma key_test_raises_metrics:
  assumes "\<And>t d. ts_le_date L t d = None"
    and "x \<in> set tbl" and "fm_symbol x = smb"
    and "report_date_of L r = Inr rd"
  shows "hist_metrics_body L smb False now ok (Inr (r # rest)) tbl = Inl TypeError"
proof -
  from assms(2,3) have "filter (\<lambda>x. fm_symbol x = smb) tbl \<noteq> []"
    by (auto simp: filter_empty_conv)
  then obtain y where "latest_by fm_report_date (filter (\<lambda>x. fm_symbol x = smb) tbl) = Some y"
    using latest_by_None[of fm_report_date "filter (\<lambda>x. fm_symbol x = smb) tbl"] by auto
  then have "existing_metrics_date smb False tbl = Some (fm_report_date y)"
    by (simp add: existing_metrics_date_def)
  with assms(1,4) show ?thesis
    by (simp add: hist_metrics_body_def hist_metrics_row_def not_newer_date_def bindE_simps)
qed

lemma key_test_raises_trades:
  assumes "\<And>t d. ts_le_date L t d = None"
    and "x \<in> set tbl" and "it_symbol x = smb"
    and "change_date_of L r = Inr cd"
    and "startswith smb ''6''"
  shows "hist_trades_body L smb False now ok (Inr (r # rest)) fetched_szse tbl = Inl TypeError"
proof -
  from assms(2,3) have "filter (\<lambda>x. it_symbol x = smb) tbl \<noteq> []"
    by (auto simp: filter_empty_conv)
  then obtain y where "latest_by it_change_date (filter (\<lambda>x. it_symbol x = smb) tbl) = Some y"
    using latest_by_None[of it_change_date "filter (\<lambda>x. it_symbol x = smb) tbl"] by auto
  then have "existing_trade_date smb False tbl = Some (it_change_date y)"
    by (simp add: existing_trade_date_def)
  with assms(1,4,5) show ?thesis
    by (simp add: hist_trades_body_def hist_trades_row_def not_newer_date_def bindE_simps)
qed

text \<open>
  With the comparison of pandas 1 the same run writes the rows of 2024-06-30 only.
\<close>

lemma incremental_key_filter_pandas1:
  "update_stock_history lib_pandas1 ''601318'' False (midnight 19950) (midnight 19950)
     q1_q2 reported_q1
   = (reported_q1\<lparr>tbl_metrics := [fin_stored ''601318'' 19813 (midnight 19840),
                                   fin_stored ''601318'' 19904 (midnight 19950)],
                   tbl_trades := [trade_stored ''601318'' 19813 (midnight 19840),
                                  trade_stored ''601318'' 19904 (midnight 19950)]\<rparr>, [])"
  by (simp add: ev ev2 ev3 Let_def q1_q2_def reported_q1_def lib_pandas1_def)

text \<open>
  C2 (monotonic filter of FinancialMetric and InsiderTrade) fails on the
  specification's own example.  The store holds the metric row of the report period
  2024-03-31 and a trade of that day; the provider returns rows for 2024-03-31 and
  2024-06-30.  The incremental run of \<^verbatim>\<open>update_stock_history\<close> writes neither
  row of 2024-06-30: in both steps the key test raises \<^verbatim>\<open>TypeError\<close>, the handler
  logs it and rolls back.  The same fetch on an empty store writes every row.
\<close>

theorem incremental_key_test_raises:
  "update_stock_history lib0 ''601318'' False (midnight 19950) (midnight 19950) q1_q2 reported_q1
     = (reported_q1, [(S_metrics, TypeError), (S_trades, TypeError)])
   \<and> map fm_report_date (tbl_metrics reported_q1) = [19813]
   \<and> map it_change_date (tbl_trades reported_q1) = [19813]
   \<and> p_fin q1_q2 = Inr [fin_row (midnight 19813) (PNum (Float 1)),
                         fin_row (midnight 19904) (PNum (Float 1))]
   \<and> p_sse q1_q2 = Inr [trade_row (midnight 19813), trade_row (midnight 19904)]
   \<and> report_date_of lib0 (fin_row (midnight 19904) (PNum (Float 1))) = Inr (midnight 19904)
   \<and> change_date_of lib0 (trade_row (midnight 19904)) = Inr (midnight 19904)
   \<and> date_of (midnight 19904) = 19904
   \<and> update_stock_history lib0 ''601318'' False (midnight 19950) (midnight 19950) q1_q2
       empty_store
     = (empty_store\<lparr>tbl_metrics := [fin_stored ''601318'' 19813 (midnight 19950),
                                     fin_stored ''601318'' 19904 (midnight 19950)],
                     tbl_trades := [trade_stored ''601318'' 19813 (midnight 19950),
                                    trade_stored ''601318'' 19904 (midnight 19950)]\<rparr>, [])"
  by (simp add: ev ev2 ev3 Let_def q1_q2_def reported_q1_def)

section \<open>Read-only accessors\<close>

text \<open>
  C10 (a missing store file).  For a ticker without a store file the session factory
  raises \<^verbatim>\<open>FileNotFoundError\<close> and each of the four accessors returns \<^verbatim>\<open>None\<close>.
\<close>

theorem missing_store_returns_none:
  assumes "fs ticker = None"
  shows "get_db_session fs ticker = Inl FileNotFoundError
       \<and> get_prices fs ticker = None
       \<and> get_financial_metrics fs ticker = None
       \<and> get_insider_trades fs ticker = None
       \<and> get_company_news fs ticker = None"
  using assms
  by (simp add: get_db_session_def get_prices_def get_financial_metrics_def
      get_insider_trades_def get_company_news_def get_price_response_def
      get_financial_metrics_response_def get_insider_trade_response_def
      get_company_news_response_def cache_get_def bindE_simps)

theorem missing_store_returns_none_witness:
  "(\<lambda>s. if s = ''600519'' then Some empty_store else None) ''601318'' = None
   \<and> get_db_session (\<lambda>s. if s = ''600519'' then Some empty_store else None) ''601318''
       = Inl FileNotFoundError
   \<and> get_prices (\<lambda>s. if s = ''600519'' then Some empty_store else None) ''601318'' = None
   \<and> get_financial_metrics (\<lambda>s. if s = ''600519'' then Some empty_store else None) ''601318''
       = None
   \<and> get_insider_trades (\<lambda>s. if s = ''600519'' then Some empty_store else None) ''601318''
       = None
   \<and> get_company_news (\<lambda>s. if s = ''600519'' then Some empty_store else None) ''601318''
       = None"
  using missing_store_returns_none
    [of "\<lambda>s. if s = ''600519'' then Some empty_store else None" "''601318''"]
  by simp

section \<open>Row failures and defaults\<close>

lemma for_rows_merge:
  "(\<exists>ms. list_all2 (\<lambda>r m. g r = Inr m) df ms
         \<and> for_rows (\<lambda>r t. bindE (g r) (\<lambda>m. Inr (merge_by key m t))) df tbl
             = Inr (fold (merge_by key) ms tbl))
   \<or> (\<exists>r\<in>set df. \<exists>e. g r = Inl e
         \<and> for_rows (\<lambda>r t. bindE (g r) (\<lambda>m. Inr (merge_by key m t))) df tbl = Inl e)"
proof (induction df arbitrary: tbl)
  case Nil
  then show ?case by simp
next
  case (Cons r df)
  show ?case
  proof (cases "g r")
    case (Inl e)
    then show ?thesis by (auto simp: bindE_simps)
  next
    case (Inr m)
    from Cons.IH[of "merge_by key m tbl"] show ?thesis
    proof
      assume "\<exists>ms. list_all2 (\<lambda>r m. g r = Inr m) df ms
         \<and> for_rows (\<lambda>r t. bindE (g r) (\<lambda>m. Inr (merge_by key m t))) df (merge_by key m tbl)
             = Inr (fold (merge_by key) ms (merge_by key m tbl))"
      then obtain ms where "list_all2 (\<lambda>r m. g r = Inr m) df ms"
        "for_rows (\<lambda>r t. bindE (g r) (\<lambda>m. Inr (merge_by key m t))) df (merge_by key m tbl)
             = Inr (fold (merge_by key) ms (merge_by key m tbl))" by blast
      with Inr have "list_all2 (\<lambda>r m. g r = Inr m) (r # df) (m # ms)
         \<and> for_rows (\<lambda>r t. bindE (g r) (\<lambda>m. Inr (merge_by key m t))) (r # df) tbl
             = Inr (fold (merge_by key) (m # ms) tbl)"
        by (simp add: bindE_simps)
      then show ?thesis by blast
    next
      assume "\<exists>r\<in>set df. \<exists>e. g r = Inl e
         \<and> for_rows (\<lambda>r t. bindE (g r) (\<lambda>m. Inr (merge_by key m t))) df (merge_by key m tbl) = Inl e"
      with Inr show ?thesis by (auto simp: bindE_simps)
    qed
  qed
qed


text \<open>
  Step 4 of \<^verbatim>\<open>main\<close> warns "skipping one abnormal record", but skips no single
  row: of three well-formed rows it stores the last only, and with one malformed row
  it stores none.
\<close>

lemma main_metrics_examples:
  "main_metrics_body lib0 ''601318'' 5 True
     (Inr [fin_row (midnight 10) (PNum (Float 1)), fin_row (midnight 20) (PNum (Float 1)),
           fin_row (midnight 30) (PNum (Float 1))]) []
     = Inr [fin_stored ''601318'' 30 5]"
  "main_metrics_body lib0 ''601318'' 5 True
     (Inr [fin_row (midnight 10) (PNum (Float 1)), fin_row (midnight 20) (PStr ''--''),
           fin_row (midnight 30) (PNum (Float 1))]) []
     = Inr []"
  by (simp_all add: main_metrics_body_def main_metrics_row_def ev ev2 Let_def)

text \<open>
  C7 (a malformed row in a batch), as amended.  \<^verbatim>\<open>update_financial_metrics\<close> never
  raises; but the batch is all or nothing: either every row maps and all are merged
  (the store accepting the commit), or the exception of the first row that fails
  to map is logged and the table is left as it was, the rows before it included.
\<close>

theorem metrics_batch_all_or_nothing:
  "(\<exists>ms. list_all2 (\<lambda>r m. metrics_from_row L smb now r = Inr m) df ms
         \<and> update_financial_metrics L smb now ok (Inr df) tbl
             = (if ok then (fold (merge_by metrics_key) ms tbl, None) else (tbl, Some StoreError)))
   \<or> (\<exists>r\<in>set df. \<exists>e. metrics_from_row L smb now r = Inl e
         \<and> update_financial_metrics L smb now ok (Inr df) tbl = (tbl, Some e))"
  using for_rows_merge[of "metrics_from_row L smb now" df metrics_key tbl]
  by (auto simp: update_financial_metrics_def update_financial_metrics_body_def bindE_simps
      handled_def commit_def)


text \<open>
  C7 as stated fails: of three rows, the second with a non-numeric ROE, none is
  stored.
\<close>

theorem bad_row_aborts_batch:
  "update_financial_metrics lib0 ''601318'' 5 True
     (Inr [fin_row 100 (PNum (Float 1)), fin_row 200 (PStr ''--''), fin_row 300 (PNum (Float 1))]) []
   = ([], Some ValueError)"
  by (simp add: update_financial_metrics_def update_financial_metrics_body_def
      metrics_from_row_def report_date_of_def metrics_of_row_def metrics_key_def ev)


text \<open>
  C8 as stated fails for metric rows: a non-numeric or an absent field is not stored
  as 0; the step fails and stores nothing.
\<close>

theorem metric_field_not_defaulted:
  "update_financial_metrics lib0 ''601318'' 5 True (Inr [fin_row 100 (PStr ''--'')]) []
     = ([], Some ValueError)
   \<and> update_financial_metrics lib0 ''601318'' 5 True (Inr [[(L_report_period, PTime 100)]]) []
     = ([], Some KeyError)"
  by (simp add: update_financial_metrics_def update_financial_metrics_body_def
      metrics_from_row_def report_date_of_def metrics_of_row_def metrics_key_def ev)


lemma info_dict_field_default:
  "str_float L ''0'' = Some (Float 0) \<Longrightarrow> absent_or_non_numeric L es k
     \<Longrightarrow> info_dict_field L es k = Float 0"
  by (auto simp: absent_or_non_numeric_def info_dict_field_def str_replace_comma_def
      bindE_def py_float_def split: option.splits pval.splits)

lemma metrics_from_row_reads:
  assumes "metrics_from_row L smb now r = Inr m"
    and "k \<in> set [L_roe, L_net_margin, L_gross_margin, L_net_profit, L_eps, L_income]"
  shows "\<exists>f. float_at L r k = Inr f"
  using assms by (auto simp: metrics_from_row_def metrics_of_row_def bindE_Inr_iff)

lemma list_all2_in_set:
  "list_all2 R xs ys \<Longrightarrow> x \<in> set xs \<Longrightarrow> \<exists>y. R x y"
  by (induction rule: list_all2_induct) auto

text \<open>
  A cell that \<^verbatim>\<open>float\<close> accepts is stored as it is, the missing number included.
\<close>

lemma nan_metric_stored:
  "map fm_roe (fst (update_financial_metrics lib0 ''601318'' 5 True
                      (Inr [fin_row (midnight 10) (PNum NaN)]) [])) = [NaN]"
  by (simp add: update_financial_metrics_def update_financial_metrics_body_def
      metrics_from_row_def report_date_of_def metrics_of_row_def metrics_key_def ev)

text \<open>
  C8 (absent or non-numeric fields become 0), as amended.  \<^verbatim>\<open>update_valuation_info\<close>
  on a non-empty frame with its two columns writes the valuation row, and every
  field whose item is absent or non-numeric is 0 in it.  Metric rows have no default:
  when one of the six metric fields of a fetched row is absent or is a value that
  \<^verbatim>\<open>float\<close> rejects, \<^verbatim>\<open>update_financial_metrics\<close> logs an exception and leaves the
  table as it was, whatever the other rows of the frame hold.
\<close>

theorem valuation_defaults_to_zero:
  "(str_float L ''0'' = Some (Float 0) \<and> entries fr \<noteq> [] \<and> has_item_value fr
    \<longrightarrow> (\<exists>v. update_valuation_info L smb now True (Inr (Some fr)) tbl
              = (merge_by v_symbol v tbl, None)
           \<and> v_symbol v = smb \<and> v_update_date v = now
           \<and> (absent_or_non_numeric L (entries fr) L_market_cap \<longrightarrow> v_market_cap v = Float 0)
           \<and> (absent_or_non_numeric L (entries fr) L_total_shares \<longrightarrow> v_total_shares v = Float 0)
           \<and> (absent_or_non_numeric L (entries fr) L_float_shares
                \<longrightarrow> v_outstanding_shares v = Float 0)
           \<and> (absent_or_non_numeric L (entries fr) L_pe_dynamic \<longrightarrow> v_pe_ratio v = Float 0)
           \<and> (absent_or_non_numeric L (entries fr) L_pb \<longrightarrow> v_pb_ratio v = Float 0)))
   \<and> (r \<in> set df
      \<and> k \<in> set [L_roe, L_net_margin, L_gross_margin, L_net_profit, L_eps, L_income]
      \<and> float_at L r k = Inl e
    \<longrightarrow> (\<exists>e'. update_financial_metrics L smb' now' ok (Inr df) mtbl = (mtbl, Some e')))"
proof (intro conjI impI)
  assume a: "str_float L ''0'' = Some (Float 0) \<and> entries fr \<noteq> [] \<and> has_item_value fr"
  define v where "v = \<lparr>v_symbol = smb,
      v_market_cap = info_dict_field L (entries fr) L_market_cap,
      v_total_shares = info_dict_field L (entries fr) L_total_shares,
      v_outstanding_shares = info_dict_field L (entries fr) L_float_shares,
      v_pe_ratio = info_dict_field L (entries fr) L_pe_dynamic,
      v_pb_ratio = info_dict_field L (entries fr) L_pb,
      v_update_date = now\<rparr>"
  have "update_valuation_info L smb now True (Inr (Some fr)) tbl = (merge_by v_symbol v tbl, None)"
    using a
    by (simp add: update_valuation_info_def update_valuation_info_body_def bindE_simps
        handled_def commit_def v_def)
  then show "\<exists>v. update_valuation_info L smb now True (Inr (Some fr)) tbl
              = (merge_by v_symbol v tbl, None)
           \<and> v_symbol v = smb \<and> v_update_date v = now
           \<and> (absent_or_non_numeric L (entries fr) L_market_cap \<longrightarrow> v_market_cap v = Float 0)
           \<and> (absent_or_non_numeric L (entries fr) L_total_shares \<longrightarrow> v_total_shares v = Float 0)
           \<and> (absent_or_non_numeric L (entries fr) L_float_shares
                \<longrightarrow> v_outstanding_shares v = Float 0)
           \<and> (absent_or_non_numeric L (entries fr) L_pe_dynamic \<longrightarrow> v_pe_ratio v = Float 0)
           \<and> (absent_or_non_numeric L (entries fr) L_pb \<longrightarrow> v_pb_ratio v = Float 0)"
    using a by (intro exI[of _ v]) (simp add: v_def info_dict_field_default)
next
  assume b: "r \<in> set df
      \<and> k \<in> set [L_roe, L_net_margin, L_gross_margin, L_net_profit, L_eps, L_income]
      \<and> float_at L r k = Inl e"
  from for_rows_merge[of "metrics_from_row L smb' now'" df metrics_key mtbl]
  show "\<exists>e'. update_financial_metrics L smb' now' ok (Inr df) mtbl = (mtbl, Some e')"
  proof
    assume "\<exists>ms. list_all2 (\<lambda>r m. metrics_from_row L smb' now' r = Inr m) df ms
         \<and> for_rows (\<lambda>r t. bindE (metrics_from_row L smb' now' r)
                              (\<lambda>m. Inr (merge_by metrics_key m t))) df mtbl
             = Inr (fold (merge_by metrics_key) ms mtbl)"
    then obtain ms where ms: "list_all2 (\<lambda>r m. metrics_from_row L smb' now' r = Inr m) df ms"
      by blast
    from b have r: "r \<in> set df"
      and k: "k \<in> set [L_roe, L_net_margin, L_gross_margin, L_net_profit, L_eps, L_income]"
      and e: "float_at L r k = Inl e" by blast+
    from list_all2_in_set[OF ms r] obtain m where "metrics_from_row L smb' now' r = Inr m"
      by blast
    from metrics_from_row_reads[OF this k] e have False by simp
    then show ?thesis ..
  next
    assume "\<exists>r\<in>set df. \<exists>e. metrics_from_row L smb' now' r = Inl e
         \<and> for_rows (\<lambda>r t. bindE (metrics_from_row L smb' now' r)
                              (\<lambda>m. Inr (merge_by metrics_key m t))) df mtbl = Inl e"
    then show ?thesis
      by (auto simp: update_financial_metrics_def update_financial_metrics_body_def bindE_simps
          handled_def)
  qed
qed

theorem valuation_defaults_to_zero_witness:
  "str_float lib0 ''0'' = Some (Float 0)
   \<and> entries (InfoFrame True [(L_market_cap, PStr ''--''), (L_pb, PNum (Float 3))]) \<noteq> []
   \<and> has_item_value (InfoFrame True [(L_market_cap, PStr ''--''), (L_pb, PNum (Float 3))])
   \<and> absent_or_non_numeric lib0 [(L_market_cap, PStr ''--''), (L_pb, PNum (Float 3))] L_market_cap
   \<and> absent_or_non_numeric lib0 [(L_market_cap, PStr ''--''), (L_pb, PNum (Float 3))] L_total_shares
   \<and> absent_or_non_numeric lib0 [(L_market_cap, PStr ''--''), (L_pb, PNum (Float 3))] L_pb
   \<and> (\<exists>v. update_valuation_info lib0 ''601318'' 5 True
            (Inr (Some (InfoFrame True [(L_market_cap, PStr ''--''), (L_pb, PNum (Float 3))]))) []
           = (merge_by v_symbol v [], None)
         \<and> v_market_cap v = Float 0 \<and> v_total_shares v = Float 0 \<and> v_pb_ratio v = Float 0)
   \<and> fin_row (midnight 20) (PStr ''--'')
       \<in> set [fin_row (midnight 10) (PNum (Float 1)), fin_row (midnight 20) (PStr ''--'')]
   \<and> L_roe \<in> set [L_roe, L_net_margin, L_gross_margin, L_net_profit, L_eps, L_income]
   \<and> float_at lib0 (fin_row (midnight 20) (PStr ''--'')) L_roe = Inl ValueError
   \<and> (\<exists>e'. update_financial_metrics lib0 ''601318'' 5 True
              (Inr [fin_row (midnight 10) (PNum (Float 1)), fin_row (midnight 20) (PStr ''--'')])
              [fin_stored ''601318'' 5 1]
            = ([fin_stored ''601318'' 5 1], Some e'))"
proof -
  have a: "str_float lib0 ''0'' = Some (Float 0)"
    by (simp add: lib0_def)
  have b: "entries (InfoFrame True [(L_market_cap, PStr ''--''), (L_pb, PNum (Float 3))]) \<noteq> []"
    by simp
  have c: "has_item_value (InfoFrame True [(L_market_cap, PStr ''--''), (L_pb, PNum (Float 3))])"
    by simp
  have d: "absent_or_non_numeric lib0 [(L_market_cap, PStr ''--''), (L_pb, PNum (Float 3))] L_market_cap"
    "absent_or_non_numeric lib0 [(L_market_cap, PStr ''--''), (L_pb, PNum (Float 3))] L_total_shares"
    "absent_or_non_numeric lib0 [(L_market_cap, PStr ''--''), (L_pb, PNum (Float 3))] L_pb"
    by (simp_all add: absent_or_non_numeric_def lib0_def)
  have f: "fin_row (midnight 20) (PStr ''--'')
       \<in> set [fin_row (midnight 10) (PNum (Float 1)), fin_row (midnight 20) (PStr ''--'')]"
    "L_roe \<in> set [L_roe, L_net_margin, L_gross_margin, L_net_profit, L_eps, L_income]"
    "float_at lib0 (fin_row (midnight 20) (PStr ''--'')) L_roe = Inl ValueError"
    by (simp_all add: ev)
  note t = valuation_defaults_to_zero
    [where L = lib0 and fr = "InfoFrame True [(L_market_cap, PStr ''--''), (L_pb, PNum (Float 3))]"
       and smb = "''601318''" and now = 5 and tbl = "[]"
       and r = "fin_row (midnight 20) (PStr ''--'')"
       and df = "[fin_row (midnight 10) (PNum (Float 1)), fin_row (midnight 20) (PStr ''--'')]"
       and k = L_roe and e = ValueError and smb' = "''601318''" and now' = 5 and ok = True
       and mtbl = "[fin_stored ''601318'' 5 1]"]
  from t[THEN conjunct1, THEN mp, OF conjI[OF a conjI[OF b c]]] d
  have v: "\<exists>v. update_valuation_info lib0 ''601318'' 5 True
            (Inr (Some (InfoFrame True [(L_market_cap, PStr ''--''), (L_pb, PNum (Float 3))]))) []
           = (merge_by v_symbol v [], None)
         \<and> v_market_cap v = Float 0 \<and> v_total_shares v = Float 0 \<and> v_pb_ratio v = Float 0"
    unfolding info_frame.sel by blast
  note m = t[THEN conjunct2, THEN mp, OF conjI[OF f(1) conjI[OF f(2) f(3)]]]
  from a b c d f v m show ?thesis
    by (intro conjI)
qed

section \<open>The history run, step by step\<close>

lemma handled_simps:
  "handled (Inl e) old = (old, Some e)" "handled (Inr t) old = (t, None)"
  by (simp_all add: handled_def)

lemma logged_simps: "logged k None = []" "logged k (Some e) = [(k, e)]"
  by (simp_all add: logged_def)

lemma handled_cases:
  "(\<exists>e. r = Inl e \<and> handled r old = (old, Some e)) \<or> (\<exists>t. r = Inr t \<and> handled r old = (t, None))"
  by (cases r) (simp_all add: handled_def)

lemma logged_fst: "k' \<in> fst ` set (logged k e) \<longleftrightarrow> k' = k \<and> e \<noteq> None"
  by (cases e) (auto simp: logged_def)



section \<open>The daily gate\<close>


lemma daily_gate_closed:
  "updated_today now smb (tbl_valuation db) \<Longrightarrow> daily_update L smb now P db = (db, [])"
  by (simp add: daily_update_def)

lemma daily_tables:
  assumes "\<not> updated_today now smb (tbl_valuation db)"
  shows "tbl_metrics (fst (daily_update L smb now P db))
     = fst (handled (daily_metrics_body L smb now (p_commit P S_metrics) (p_fin P)
                       (tbl_metrics db)) (tbl_metrics db))"
    and "tbl_valuation (fst (daily_update L smb now P db))
     = fst (handled (daily_valuation_body L smb now (p_commit P S_valuation) (p_info P)
                       (tbl_valuation db)) (tbl_valuation db))"
    and "S_valuation \<in> fst ` set (snd (daily_update L smb now P db))
     \<longleftrightarrow> (\<exists>e. daily_valuation_body L smb now (p_commit P S_valuation) (p_info P)
                  (tbl_valuation db) = Inl e)"
  using assms
  by (auto simp: daily_update_def Let_def image_Un logged_fst handled_def split: sum.splits)



lemmas ev4 = daily_update_def updated_today_def last_update_def date_of_def
  update_daily_price_def update_daily_price_body_def daily_metrics_body_def
  daily_trades_body_def daily_news_body_def daily_valuation_body_def today_rows_def
  metrics_today_def valued_today_def stale_valuation_def news_today_def new_report_def
  same_report_def

lemma metrics_of_row_fields:
  "metrics_of_row L smb now rd r = Inr m \<Longrightarrow> fm_symbol m = smb \<and> fm_report_date m = date_of rd"
  by (auto simp: metrics_of_row_def bindE_Inr_iff)





text \<open>
  C6 as stated fails: with a valuation row written today, a provider report of a
  later day than the stored one is not written.
\<close>

theorem gate_suppresses_new_report:
  "p_fin new_report = Inr [fin_row (midnight 90) (PNum (Float 1))]
   \<and> report_date_of lib0 (fin_row (midnight 90) (PNum (Float 1))) = Inr (midnight 90)
   \<and> date_of (midnight 90) = 90
   \<and> map fm_report_date (tbl_metrics valued_today) = [10]
   \<and> daily_update lib0 ''601318'' (100 * day_us + 5) new_report valued_today
       = (valued_today, [])"
  by (simp add: ev ev2 ev3 ev4 Let_def)

text \<open>
  C6 (a newer report period is written), as amended.  When the daily test lets the
  run proceed, the first row of the provider's frame has a report period on a later
  day than every stored one of the security, its fields convert and the store
  accepts the commit, that row is appended to the metrics table, under the day of
  its report period.  When the test lets the run proceed and a row of that day is
  stored, the metrics table is unchanged.  When the test stops the run, the metrics
  table is unchanged.
\<close>

theorem new_report_written_when_gate_open:
  "(\<not> updated_today now smb (tbl_valuation db)
      \<and> p_fin P = Inr (r # rest) \<and> report_date_of L r = Inr rd
      \<and> (\<forall>x\<in>set (tbl_metrics db). fm_symbol x = smb \<longrightarrow> fm_report_date x < date_of rd)
      \<and> metrics_of_row L smb now rd r = Inr m \<and> p_commit P S_metrics
    \<longrightarrow> tbl_metrics (fst (daily_update L smb now P db)) = tbl_metrics db @ [m]
      \<and> fm_symbol m = smb \<and> fm_report_date m = date_of rd)
   \<and> (\<not> updated_today now smb (tbl_valuation db)
      \<and> p_fin P = Inr (r # rest) \<and> report_date_of L r = Inr rd
      \<and> (\<exists>x\<in>set (tbl_metrics db). fm_symbol x = smb \<and> fm_report_date x = date_of rd)
    \<longrightarrow> tbl_metrics (fst (daily_update L smb now P db)) = tbl_metrics db)
   \<and> (updated_today now smb (tbl_valuation db)
    \<longrightarrow> tbl_metrics (fst (daily_update L smb now P db)) = tbl_metrics db)"
proof (intro conjI impI)
  assume a: "\<not> updated_today now smb (tbl_valuation db)
      \<and> p_fin P = Inr (r # rest) \<and> report_date_of L r = Inr rd
      \<and> (\<forall>x\<in>set (tbl_metrics db). fm_symbol x = smb \<longrightarrow> fm_report_date x < date_of rd)
      \<and> metrics_of_row L smb now rd r = Inr m \<and> p_commit P S_metrics"
  then have g: "\<not> updated_today now smb (tbl_valuation db)" by simp
  from a have m: "fm_symbol m = smb" "fm_report_date m = date_of rd"
    using metrics_of_row_fields by blast+
  from a have none: "filter (\<lambda>x. fm_symbol x = smb \<and> fm_report_date x = date_of rd)
                       (tbl_metrics db) = []"
    by (auto simp: filter_empty_conv)
  from a m have "metrics_key m \<notin> metrics_key ` set (tbl_metrics db)"
    by (auto simp: metrics_key_def)
  then have app: "merge_by metrics_key m (tbl_metrics db) = tbl_metrics db @ [m]"
    by (rule merge_by_absent)
  from a none have "daily_metrics_body L smb now (p_commit P S_metrics) (p_fin P) (tbl_metrics db)
      = Inr (merge_by metrics_key m (tbl_metrics db))"
    by (simp add: daily_metrics_body_def bindE_simps commit_def)
  then show "tbl_metrics (fst (daily_update L smb now P db)) = tbl_metrics db @ [m]"
    by (simp add: daily_tables(1)[OF g] handled_simps app)
  from m show "fm_symbol m = smb" "fm_report_date m = date_of rd" by simp_all
next
  assume a: "\<not> updated_today now smb (tbl_valuation db)
      \<and> p_fin P = Inr (r # rest) \<and> report_date_of L r = Inr rd
      \<and> (\<exists>x\<in>set (tbl_metrics db). fm_symbol x = smb \<and> fm_report_date x = date_of rd)"
  then have g: "\<not> updated_today now smb (tbl_valuation db)" by simp
  from a have some: "filter (\<lambda>x. fm_symbol x = smb \<and> fm_report_date x = date_of rd)
                       (tbl_metrics db) \<noteq> []"
    by (auto simp: filter_empty_conv)
  from a some have "daily_metrics_body L smb now (p_commit P S_metrics) (p_fin P) (tbl_metrics db)
      = Inr (tbl_metrics db)"
    by (simp add: daily_metrics_body_def bindE_simps)
  then show "tbl_metrics (fst (daily_update L smb now P db)) = tbl_metrics db"
    by (simp add: daily_tables(1)[OF g] handled_simps)
next
  assume "updated_today now smb (tbl_valuation db)"
  then show "tbl_metrics (fst (daily_update L smb now P db)) = tbl_metrics db"
    by (simp add: daily_gate_closed)
qed

theorem new_report_written_when_gate_open_witness:
  "\<not> updated_today (100 * day_us) ''601318'' (tbl_valuation stale_valuation)
   \<and> p_fin new_report = Inr (fin_row (midnight 90) (PNum (Float 1)) # [])
   \<and> report_date_of lib0 (fin_row (midnight 90) (PNum (Float 1))) = Inr (midnight 90)
   \<and> list_all (\<lambda>x. fm_symbol x = ''601318'' \<longrightarrow> fm_report_date x < date_of (midnight 90))
       (tbl_metrics stale_valuation)
   \<and> metrics_of_row lib0 ''601318'' (100 * day_us) (midnight 90)
         (fin_row (midnight 90) (PNum (Float 1)))
       = Inr (fin_stored ''601318'' 90 (100 * day_us))
   \<and> p_commit new_report S_metrics
   \<and> tbl_metrics (fst (daily_update lib0 ''601318'' (100 * day_us) new_report stale_valuation))
       = tbl_metrics stale_valuation @ [fin_stored ''601318'' 90 (100 * day_us)]
   \<and> p_fin same_report = Inr (fin_row (midnight 10 + 1) (PNum (Float 9)) # [])
   \<and> report_date_of lib0 (fin_row (midnight 10 + 1) (PNum (Float 9))) = Inr (midnight 10 + 1)
   \<and> list_ex (\<lambda>x. fm_symbol x = ''601318'' \<and> fm_report_date x = date_of (midnight 10 + 1))
       (tbl_metrics stale_valuation)
   \<and> tbl_metrics (fst (daily_update lib0 ''601318'' (100 * day_us) same_report stale_valuation))
       = tbl_metrics stale_valuation
   \<and> updated_today (100 * day_us + 5) ''601318'' (tbl_valuation valued_today)
   \<and> tbl_metrics (fst (daily_update lib0 ''601318'' (100 * day_us + 5) new_report valued_today))
       = tbl_metrics valued_today"
proof -
  have a: "\<not> updated_today (100 * day_us) ''601318'' (tbl_valuation stale_valuation)"
    by (simp add: ev ev3 ev4)
  have b: "p_fin new_report = Inr (fin_row (midnight 90) (PNum (Float 1)) # [])"
    "p_commit new_report S_metrics"
    by (simp_all add: new_report_def quiet_def)
  have c: "report_date_of lib0 (fin_row (midnight 90) (PNum (Float 1))) = Inr (midnight 90)"
    "metrics_of_row lib0 ''601318'' (100 * day_us) (midnight 90)
         (fin_row (midnight 90) (PNum (Float 1)))
       = Inr (fin_stored ''601318'' 90 (100 * day_us))"
    by (simp_all add: ev ev2)
  have d: "\<forall>x\<in>set (tbl_metrics stale_valuation).
             fm_symbol x = ''601318'' \<longrightarrow> fm_report_date x < date_of (midnight 90)"
    by (simp add: stale_valuation_def empty_store_def fin_stored_def date_of_midnight)
  have b': "p_fin same_report = Inr (fin_row (midnight 10 + 1) (PNum (Float 9)) # [])"
    by (simp add: same_report_def quiet_def)
  have c': "report_date_of lib0 (fin_row (midnight 10 + 1) (PNum (Float 9)))
              = Inr (midnight 10 + 1)"
    by (simp add: ev ev2)
  have d': "\<exists>x\<in>set (tbl_metrics stale_valuation).
             fm_symbol x = ''601318'' \<and> fm_report_date x = date_of (midnight 10 + 1)"
    by (simp add: stale_valuation_def empty_store_def fin_stored_def date_of_def midnight_def
        day_us_def)
  have u: "updated_today (100 * day_us + 5) ''601318'' (tbl_valuation valued_today)"
    by (simp add: ev ev3 ev4)
  note t1 = new_report_written_when_gate_open
    [where now = "100 * day_us" and smb = "''601318''" and db = stale_valuation
       and P = new_report and r = "fin_row (midnight 90) (PNum (Float 1))" and rest = "[]"
       and L = lib0 and rd = "midnight 90" and m = "fin_stored ''601318'' 90 (100 * day_us)"]
  note t2 = new_report_written_when_gate_open
    [where now = "100 * day_us" and smb = "''601318''" and db = stale_valuation
       and P = same_report and r = "fin_row (midnight 10 + 1) (PNum (Float 9))" and rest = "[]"
       and L = lib0 and rd = "midnight 10 + 1"]
  note t3 = new_report_written_when_gate_open
    [where now = "100 * day_us + 5" and smb = "''601318''" and db = valued_today
       and P = new_report and L = lib0]
  from t1 a b c d have r1:
    "tbl_metrics (fst (daily_update lib0 ''601318'' (100 * day_us) new_report stale_valuation))
       = tbl_metrics stale_valuation @ [fin_stored ''601318'' 90 (100 * day_us)]"
    by blast
  from t2 a b' c' d' have r2:
    "tbl_metrics (fst (daily_update lib0 ''601318'' (100 * day_us) same_report stale_valuation))
       = tbl_metrics stale_valuation"
    by blast
  from t3 u have r3:
    "tbl_metrics (fst (daily_update lib0 ''601318'' (100 * day_us + 5) new_report valued_today))
       = tbl_metrics valued_today"
    by blast
  from a b c d b' c' d' u r1 r2 r3 show ?thesis
    unfolding list_all_iff list_ex_iff by (intro conjI)
qed

end
